theory Spec2Isabelle
  imports Main "HOL-Library.Sublist"
begin

section \<open>Python values\<close>

text \<open>
  A Python \<open>str\<close> is a sequence of Unicode code points, so it is modelled as a list of
  natural numbers (slicing and \<open>len\<close> count code points). \<open>py\<close> turns an ASCII literal
  into such a list.
\<close>

type_synonym pystr = "nat list"

definition py :: "string \<Rightarrow> pystr" where
  "py s = map of_char s"

text \<open>
  A dictionary entry read with \<open>.get(key)\<close> is either missing (\<open>None\<close>) or a string.
  Python's truth value of such an entry: \<open>None\<close> and the empty string are false.
\<close>

fun truthy :: "pystr option \<Rightarrow> bool" where
  "truthy None = False"
| "truthy (Some s) = (s \<noteq> [])"

text \<open>\<open>item.get(key, '')\<close>\<close>

fun get_str :: "pystr option \<Rightarrow> pystr" where
  "get_str None = []"
| "get_str (Some s) = s"

text \<open>\<open>a or b\<close>\<close>

definition py_or :: "pystr option \<Rightarrow> pystr option \<Rightarrow> pystr option" where
  "py_or a b = (if truthy a then a else b)"

text \<open>
  A cell of a persisted row as \<open>ExcelManager.load_data\<close> hands it over
  (\<open>df.to_dict('records')\<close>): a string, or the float NaN that pandas puts into an empty
  cell; \<open>CNone\<close> stands for a key that is missing or holds \<open>None\<close>. NaN is a true value in
  Python and is equal to no string.
\<close>

datatype cell = CNone | CStr pystr | CNaN

fun truthy_cell :: "cell \<Rightarrow> bool" where
  "truthy_cell CNone = False"
| "truthy_cell (CStr s) = (s \<noteq> [])"
| "truthy_cell CNaN = True"

section \<open>Records\<close>

text \<open>
  The dictionaries built by the list-page extraction (\<open>smart_parser.py\<close>): keys
  \<open>title\<close>, \<open>link\<close>, \<open>date\<close>, \<open>nid\<close>; \<open>Paginator._deduplicate_data\<close> also reads
  \<open>hash\<close>. Every reader in the program goes through \<open>.get\<close>, so a key that is
  missing and a key holding \<open>None\<close> are the same field value \<open>None\<close> here.
\<close>

record list_record =
  title :: "pystr option"
  link :: "pystr option"
  date :: "pystr option"
  nid :: "pystr option"
  hash :: "pystr option"

text \<open>
  The rows of the Excel store. The source's column names are Chinese; the fields are, in
  the order in which \<open>fetch_detail_page\<close> of \<open>main.py\<close> fills them: the activity name
  (\<open>event_name\<close>), the fetch time (\<open>fetched_at\<close>), the organizer, the place
  (\<open>location\<close>), the first day (\<open>start_date\<close>) and the last day (\<open>end_date\<close>).
\<close>

record detail_record =
  event_name :: cell
  fetched_at :: cell
  organizer :: cell
  location :: cell
  start_date :: cell
  end_date :: cell

section \<open>detector.py\<close>

text \<open>
  \<open>DataDetector.detect_new_data\<close>: the keys of the persisted rows whose name and start
  date are both true values are collected; a fresh record is kept when its
  \<open>(title, date)\<close> pair (missing fields read as \<open>''\<close>) is not among them.
\<close>

definition existing_keys :: "detail_record list \<Rightarrow> (cell \<times> cell) list" where
  "existing_keys existing_data =
     [(event_name item, start_date item). item \<leftarrow> existing_data,
        truthy_cell (event_name item) \<and> truthy_cell (start_date item)]"

definition detect_new_data :: "list_record list \<Rightarrow> detail_record list \<Rightarrow> list_record list" where
  "detect_new_data new_data existing_data =
     (if new_data = [] then []
      else [item \<leftarrow> new_data.
              (CStr (get_str (title item)), CStr (get_str (date item)))
                \<notin> set (existing_keys existing_data)])"

section \<open>paginator.py: aggregation\<close>

text \<open>
  \<open>Paginator._deduplicate_data\<close>. The loop state is the two \<open>seen\<close> sets and the
  output list; \<open>seen_nids.add(item.get('nid'))\<close> adds \<open>None\<close> when the record has no
  nid, as the source does.
\<close>

fun dedup_loop ::
  "list_record list \<Rightarrow> pystr option set \<Rightarrow> pystr option set \<Rightarrow> list_record list
     \<Rightarrow> list_record list" where
  "dedup_loop [] seen_nids seen_hashes unique_data = unique_data"
| "dedup_loop (item # rest) seen_nids seen_hashes unique_data =
     (let identifier = py_or (nid item) (hash item) in
      if truthy identifier \<and> identifier \<notin> seen_nids \<and> identifier \<notin> seen_hashes
      then dedup_loop rest (insert (nid item) seen_nids) (insert (hash item) seen_hashes)
             (unique_data @ [item])
      else dedup_loop rest seen_nids seen_hashes unique_data)"

definition deduplicate_data :: "list_record list \<Rightarrow> list_record list" where
  "deduplicate_data data_list = dedup_loop data_list {} {} []"

section \<open>paginator.py: page URLs\<close>

text \<open>
  Exceptions of the Python run time that the modelled code can raise; a function that can
  raise returns \<open>py_error + 'a\<close>, with \<open>Inl\<close> for the exception.
\<close>

datatype py_error = IndexError | TypeError | ValueError | SelectorSyntaxError

text \<open>\<open>str(page)\<close> for an integer: its decimal digits, with a minus sign when negative.\<close>

fun str_nat :: "nat \<Rightarrow> pystr" where
  "str_nat n = (if n < 10 then [48 + n] else str_nat (n div 10) @ [48 + n mod 10])"

declare str_nat.simps [simp del]

definition str_int :: "int \<Rightarrow> pystr" where
  "str_int i = (if i < 0 then 45 # str_nat (nat (- i)) else str_nat (nat i))"

text \<open>
  \<open>urllib.parse.urlencode(query, doseq=True)\<close> on a dictionary of strings: every key and
  value goes through \<open>quote_plus\<close> (letters, digits and \<open>_.-~\<close> are kept, a space becomes
  \<open>+\<close>, every other character is percent-encoded byte by byte in UTF-8), and the
  \<open>key=value\<close> pairs are joined by \<open>&\<close> in the order of the dictionary.
\<close>

definition always_safe :: "nat \<Rightarrow> bool" where
  "always_safe c =
     ((65 \<le> c \<and> c \<le> 90) \<or> (97 \<le> c \<and> c \<le> 122) \<or> (48 \<le> c \<and> c \<le> 57)
      \<or> c = 95 \<or> c = 46 \<or> c = 45 \<or> c = 126)"

definition hex_digit :: "nat \<Rightarrow> nat" where
  "hex_digit d = (if d < 10 then 48 + d else 55 + d)"

definition utf8 :: "nat \<Rightarrow> nat list" where
  "utf8 c =
     (if c < 128 then [c]
      else if c < 2048 then [192 + c div 64, 128 + c mod 64]
      else if c < 65536 then [224 + c div 4096, 128 + (c div 64) mod 64, 128 + c mod 64]
      else [240 + c div 262144, 128 + (c div 4096) mod 64, 128 + (c div 64) mod 64,
            128 + c mod 64])"

definition quote_char :: "nat \<Rightarrow> pystr" where
  "quote_char c =
     (if always_safe c then [c]
      else if c = 32 then [43]
      else concat (map (\<lambda>b. [37, hex_digit (b div 16), hex_digit (b mod 16)]) (utf8 c)))"

definition quote_plus :: "pystr \<Rightarrow> pystr" where
  "quote_plus s = concat (map quote_char s)"

fun join :: "pystr \<Rightarrow> pystr list \<Rightarrow> pystr" where
  "join sep [] = []"
| "join sep [x] = x"
| "join sep (x # y # ys) = x @ sep @ join sep (y # ys)"

definition urlencode :: "(pystr \<times> pystr) list \<Rightarrow> pystr" where
  "urlencode query = join (py ''&'') (map (\<lambda>(k, v). quote_plus k @ py ''='' @ quote_plus v) query)"

text \<open>
  \<open>Paginator._generate_page_urls\<close>. The function first calls the library on its
  argument: \<open>urlparse(base_url)\<close>, of which it reads scheme, netloc and path, and
  \<open>parse_qs\<close> of the query, a dictionary from a parameter name to the list of its values.
  The model takes these two results as its input. \<open>first_value\<close> is
  \<open>query_params.get(key, [None])[0]\<close>; \<open>page_param_of\<close> is the choice of the parameter name
  (an empty \<open>pagination_config\<close> is a false value, so the analyzer's dictionary is asked
  then). As in the source, \<open>page_param\<close> is bound and the query of every page is built
  with the literal key \<open>pg\<close>.
\<close>

record parsed_url =
  scheme :: pystr
  netloc :: pystr
  path :: pystr

definition first_value :: "(pystr \<times> pystr list) list \<Rightarrow> pystr \<Rightarrow> py_error + pystr option" where
  "first_value query_params k =
     (case map_of query_params k of
        None \<Rightarrow> Inr None
      | Some [] \<Rightarrow> Inl IndexError
      | Some (v # _) \<Rightarrow> Inr (Some v))"

definition dict_get :: "(pystr \<times> pystr) list \<Rightarrow> pystr \<Rightarrow> pystr \<Rightarrow> pystr" where
  "dict_get d k dflt = (case map_of d k of None \<Rightarrow> dflt | Some v \<Rightarrow> v)"

definition page_param_of :: "(pystr \<times> pystr) list option \<Rightarrow> (pystr \<times> pystr) list \<Rightarrow> pystr" where
  "page_param_of pagination_config pagination_info =
     (case pagination_config of
        Some (e # es) \<Rightarrow> dict_get (e # es) (py ''page_param'') (py ''pg'')
      | _ \<Rightarrow> dict_get pagination_info (py ''page_param'') (py ''pg''))"

definition page_query :: "pystr option \<Rightarrow> int \<Rightarrow> (pystr \<times> pystr) list" where
  "page_query spid page =
     (if page = 1 \<and> truthy spid then [(py ''spid'', get_str spid)]
      else (py ''pg'', str_int page)
             # (if truthy spid then [(py ''spid'', get_str spid)] else []))"

definition generate_page_urls ::
  "parsed_url \<Rightarrow> (pystr \<times> pystr list) list \<Rightarrow> int \<Rightarrow> (pystr \<times> pystr) list
     \<Rightarrow> (pystr \<times> pystr) list option \<Rightarrow> py_error + pystr list" where
  "generate_page_urls parsed query_params total_pages pagination_info pagination_config =
     (let base_path = scheme parsed @ py ''://'' @ netloc parsed @ path parsed in
      case first_value query_params (py ''spid'') of
        Inl e \<Rightarrow> Inl e
      | Inr spid \<Rightarrow>
          let page_param = page_param_of pagination_config pagination_info in
          Inr (map (\<lambda>page. base_path @ py ''?'' @ urlencode (page_query spid page))
                 [1..total_pages]))"

section \<open>Text\<close>

text \<open>
  \<open>is_space\<close> is Python's \<open>str.isspace\<close> on one code point, which is also what
  \<open>str.strip()\<close> removes and what \<open>\s\<close> matches. \<open>is_digit\<close> is the class \<open>\d\<close> of a
  pattern on \<open>str\<close>: every decimal digit of Unicode (general category \<open>Nd\<close>), in any
  script. These digits come in runs of ten, from a zero to a nine; \<open>decimal_zeros\<close> lists
  the zeros beyond ASCII (Unicode 14, the character database of Python 3.11), and
  \<open>decimal_value\<close> is the value that \<open>int\<close> gives to a digit. \<open>is_ascii_digit\<close> is the
  range \<open>0-9\<close> written out in a character class.
\<close>

definition is_space :: "nat \<Rightarrow> bool" where
  "is_space c =
     ((9 \<le> c \<and> c \<le> 13) \<or> (28 \<le> c \<and> c \<le> 32) \<or> c = 133 \<or> c = 160 \<or> c = 5760
      \<or> (8192 \<le> c \<and> c \<le> 8202) \<or> c = 8232 \<or> c = 8233 \<or> c = 8239 \<or> c = 8287
      \<or> c = 12288)"

definition is_ascii_digit :: "nat \<Rightarrow> bool" where
  "is_ascii_digit c = (48 \<le> c \<and> c \<le> 57)"

definition decimal_zeros :: "nat list" where
  "decimal_zeros =
     [1632, 1776, 1984, 2406, 2534, 2662, 2790, 2918, 3046, 3174, 3302, 3430, 3558, 3664,
      3792, 3872, 4160, 4240, 6112, 6160, 6470, 6608, 6784, 6800, 6992, 7088, 7232, 7248,
      42528, 43216, 43264, 43472, 43504, 43600, 44016, 65296, 66720, 68912, 69734, 69872,
      69942, 70096, 70384, 70736, 70864, 71248, 71360, 71472, 71904, 72016, 72784, 73040,
      73120, 92768, 92864, 93008, 120782, 120792, 120802, 120812, 120822, 123200, 123632,
      125264, 130032]"

definition decimal_value :: "nat \<Rightarrow> nat option" where
  "decimal_value c =
     (if c < 128 then (if is_ascii_digit c then Some (c - 48) else None)
      else map_option (\<lambda>z. c - z) (find (\<lambda>z. z \<le> c \<and> c < z + 10) decimal_zeros))"

definition is_digit :: "nat \<Rightarrow> bool" where
  "is_digit c = (decimal_value c \<noteq> None)"

definition strip :: "pystr \<Rightarrow> pystr" where
  "strip s = rev (dropWhile is_space (rev (dropWhile is_space s)))"

definition starts_with :: "pystr \<Rightarrow> pystr \<Rightarrow> bool" where
  "starts_with p s = (take (length p) s = p)"

text \<open>\<open>p in s\<close> for strings.\<close>

fun contains :: "pystr \<Rightarrow> pystr \<Rightarrow> bool" where
  "contains p [] = (p = [])"
| "contains p (c # cs) = (starts_with p (c # cs) \<or> contains p cs)"

text \<open>
  \<open>re.search\<close>: the pattern is tried at every position from the left; the argument
  \<open>m\<close> says whether the pattern matches at the head of a suffix and with which result.
\<close>

fun re_search :: "(pystr \<Rightarrow> 'a option) \<Rightarrow> pystr \<Rightarrow> 'a option" where
  "re_search m [] = m []"
| "re_search m (c # cs) = (case m (c # cs) of Some g \<Rightarrow> Some g | None \<Rightarrow> re_search m cs)"

text \<open>
  The pattern \<open>nid=([A-F0-9]+)\<close> at the head of \<open>s\<close>; the result is group 1. The class
  \<open>[A-F0-9]\<close> is two ranges of ASCII characters.
\<close>

definition is_upper_hex :: "nat \<Rightarrow> bool" where
  "is_upper_hex c = (is_ascii_digit c \<or> (65 \<le> c \<and> c \<le> 70))"

definition nid_at :: "pystr \<Rightarrow> pystr option" where
  "nid_at s =
     (if starts_with (py ''nid='') s \<and> takeWhile is_upper_hex (drop 4 s) \<noteq> []
      then Some (takeWhile is_upper_hex (drop 4 s)) else None)"

text \<open>The pattern \<open>\d{4}-\d{2}-\d{2}\<close> at the head of \<open>s\<close>; the result is the match.\<close>

definition date_at :: "pystr \<Rightarrow> pystr option" where
  "date_at s =
     (let d = take 10 s in
      if length d = 10 \<and> list_all is_digit (take 4 d) \<and> d ! 4 = 45
         \<and> list_all is_digit (take 2 (drop 5 d)) \<and> d ! 7 = 45
         \<and> list_all is_digit (drop 8 d)
      then Some d else None)"

section \<open>Documents\<close>

text \<open>
  A parsed page (\<open>BeautifulSoup\<close> with the \<open>lxml\<close> parser): a tree of strings and
  elements; an element has a tag name, its attributes with their values as written in
  the page, and children. The page itself is the element named \<open>[document]\<close>. The
  strings are of three kinds, as the library has them: a \<open>Text\<close> is a string of the page
  (\<open>NavigableString\<close>, \<open>CData\<close>); a \<open>Comment\<close> is a comment, a declaration or a processing
  instruction; and \<open>Special c s\<close> is a string below an element named \<open>script\<close>,
  \<open>style\<close>, \<open>template\<close>, \<open>rt\<close> or \<open>rp\<close>, where \<open>c\<close> is the name of the innermost such
  element (the library gives these strings a class of their own for each of the five
  names). \<open>tag.string\<close> and \<open>find_all(string=...)\<close> see the strings of all three kinds;
  \<open>get_text\<close> does not.
\<close>

datatype node =
  Text pystr
| Comment pystr
| Special pystr pystr
| Elem pystr "(pystr \<times> pystr) list" "node list"

fun name_of :: "node \<Rightarrow> pystr option" where
  "name_of (Text s) = None"
| "name_of (Comment s) = None"
| "name_of (Special c s) = None"
| "name_of (Elem n a cs) = Some n"

text \<open>\<open>tag.get(key)\<close>\<close>

fun attr :: "node \<Rightarrow> pystr \<Rightarrow> pystr option" where
  "attr (Text s) k = None"
| "attr (Comment s) k = None"
| "attr (Special c s) k = None"
| "attr (Elem n a cs) k = map_of a k"

text \<open>All nodes below a node, in document order.\<close>

fun descendants :: "node \<Rightarrow> node list" where
  "descendants (Text s) = []"
| "descendants (Comment s) = []"
| "descendants (Special c s) = []"
| "descendants (Elem n a cs) = concat (map (\<lambda>c. c # descendants c) cs)"

text \<open>
  \<open>tag.get_text()\<close> and \<open>tag.get_text(strip=True)\<close>: the strings below the tag that
  are of the kind the tag is interested in are joined; with \<open>strip=True\<close> each string is
  stripped first and dropped when nothing is left of it. A tag named \<open>script\<close>, \<open>style\<close>,
  \<open>template\<close>, \<open>rt\<close> or \<open>rp\<close> is interested in the special strings of its own name, every
  other tag in the \<open>Text\<close> strings; no tag is interested in comments.
\<close>

definition string_containers :: "pystr list" where
  "string_containers = [py ''rt'', py ''rp'', py ''style'', py ''script'', py ''template'']"

definition interesting_strings :: "node \<Rightarrow> pystr option" where
  "interesting_strings e =
     (case name_of e of
        None \<Rightarrow> None
      | Some n \<Rightarrow> if n \<in> set string_containers then Some n else None)"

fun node_text :: "pystr option \<Rightarrow> node \<Rightarrow> pystr list" where
  "node_text k (Text s) = (if k = None then [s] else [])"
| "node_text k (Comment s) = []"
| "node_text k (Special c s) = (if k = Some c then [s] else [])"
| "node_text k (Elem n a cs) = []"

definition all_strings :: "node \<Rightarrow> pystr list" where
  "all_strings e = concat (map (node_text (interesting_strings e)) (descendants e))"

definition get_text :: "node \<Rightarrow> pystr" where
  "get_text e = concat (all_strings e)"

definition get_text_strip :: "node \<Rightarrow> pystr" where
  "get_text_strip e = concat [strip s. s \<leftarrow> all_strings e, strip s \<noteq> []]"

text \<open>\<open>tag.find_all(names)\<close> and \<open>tag.find(name)\<close>\<close>

definition find_all :: "pystr list \<Rightarrow> node \<Rightarrow> node list" where
  "find_all names e = [d \<leftarrow> descendants e. \<exists>n \<in> set names. name_of d = Some n]"

definition find_first :: "pystr \<Rightarrow> node \<Rightarrow> node option" where
  "find_first name e = (case find_all [name] e of [] \<Rightarrow> None | d # _ \<Rightarrow> Some d)"

text \<open>
  \<open>tag.find('span', class_=re.compile(r'hidden'))\<close>: the first \<open>span\<close> below the tag
  with a class that contains \<open>hidden\<close>. BeautifulSoup tests each class of the attribute
  and their join by blanks; as \<open>hidden\<close> has no blank in it, this is the same as the
  attribute value containing \<open>hidden\<close>.
\<close>

definition has_hidden_class :: "node \<Rightarrow> bool" where
  "has_hidden_class e =
     (case attr e (py ''class'') of None \<Rightarrow> False | Some v \<Rightarrow> contains (py ''hidden'') v)"

definition find_hidden_span :: "node \<Rightarrow> node option" where
  "find_hidden_span e =
     (case [d \<leftarrow> find_all [py ''span''] e. has_hidden_class d] of
        [] \<Rightarrow> None | d # _ \<Rightarrow> Some d)"

section \<open>smart_parser.py: table rows\<close>

definition no_fields :: list_record where
  "no_fields = \<lparr>title = None, link = None, date = None, nid = None, hash = None\<rparr>"

text \<open>\<open>any(row.values())\<close>\<close>

definition any_values :: "list_record \<Rightarrow> bool" where
  "any_values r =
     (truthy (title r) \<or> truthy (link r) \<or> truthy (date r) \<or> truthy (nid r) \<or> truthy (hash r))"

text \<open>
  \<open>SmartParser._extract_table_row\<close>, statement by statement: the anchor of the first
  cell (\<open>row1\<close>), the hidden span of the first cell (\<open>row2\<close>), then the second cell
  (\<open>row3\<close>), which assigns \<open>date\<close> after the span did. \<open>hidden_span_date\<close> is the date
  found in the span (commas removed, first match of the pattern), \<open>second_cell_date\<close>
  the text of the second cell when the pattern matches at its start.
\<close>

definition hidden_span_date :: "node \<Rightarrow> pystr option" where
  "hidden_span_date title_cell =
     (case find_hidden_span title_cell of
        None \<Rightarrow> None
      | Some date_span \<Rightarrow>
          let date_text = filter (\<lambda>c. c \<noteq> 44) (get_text_strip date_span) in
          re_search date_at date_text)"

definition second_cell_date :: "node list \<Rightarrow> pystr option" where
  "second_cell_date more_cells =
     (case more_cells of
        [] \<Rightarrow> None
      | second_cell # _ \<Rightarrow>
          let date_cell = strip (get_text_strip second_cell) in
          if date_cell \<noteq> [] \<and> date_at date_cell \<noteq> None then Some date_cell else None)"

definition extract_table_row :: "node \<Rightarrow> list_record option" where
  "extract_table_row row =
     (case find_all [py ''td'', py ''th''] row of
        [] \<Rightarrow> None
      | title_cell # more_cells \<Rightarrow>
          let row1 =
                (case find_first (py ''a'') title_cell of
                   None \<Rightarrow> no_fields
                 | Some title_link \<Rightarrow>
                     let href = get_str (attr title_link (py ''href'')) in
                     (case re_search nid_at href of
                        None \<Rightarrow>
                          no_fields\<lparr>title := Some (get_text_strip title_link),
                                    link := Some href\<rparr>
                      | Some g \<Rightarrow>
                          no_fields\<lparr>title := Some (get_text_strip title_link),
                                    link := Some href, nid := Some g\<rparr>));
              row2 =
                (case hidden_span_date title_cell of
                   None \<Rightarrow> row1
                 | Some d \<Rightarrow> row1\<lparr>date := Some d\<rparr>);
              row3 =
                (case second_cell_date more_cells of
                   None \<Rightarrow> row2
                 | Some d \<Rightarrow> row2\<lparr>date := Some d\<rparr>)
          in if truthy (title row3) then Some row3 else None)"

section \<open>Selectors\<close>

text \<open>
  The selectors that the program itself writes down are few and simple; they are modelled
  by the datatype \<open>css\<close>: \<open>Tag\<close> is \<open>h1\<close>, \<open>Class\<close> is \<open>.title\<close>, \<open>Id\<close> is
  \<open>#pagination\<close>, \<open>HasAttr\<close> is \<open>[href]\<close>, \<open>AttrSub\<close> is \<open>[class*="page"]\<close>, \<open>AttrEq\<close> is
  \<open>[aria-current="page"]\<close>, \<open>Both\<close> is a compound such as \<open>a[href]\<close> or \<open>ul.pagination\<close>,
  \<open>Inside a b\<close> is the descendant combinator \<open>a b\<close> and \<open>Either\<close> is the comma.
  \<open>css_matches sel anc e\<close> tests the element \<open>e\<close> whose ancestors are \<open>anc\<close>, nearest
  first. The value of a \<open>class\<close> attribute is split at white space; for \<open>*=\<close> on
  \<open>class\<close> the library joins the classes by blanks, which for a needle without a blank is
  the same as searching the attribute value.
\<close>

datatype css =
    Tag pystr
  | Class pystr
  | Id pystr
  | HasAttr pystr
  | AttrSub pystr pystr
  | AttrEq pystr pystr
  | Both css css
  | Inside css css
  | Either css css

fun tokens :: "pystr \<Rightarrow> pystr \<Rightarrow> pystr list" where
  "tokens cur [] = (if cur = [] then [] else [cur])"
| "tokens cur (c # cs) =
     (if is_space c then (if cur = [] then tokens [] cs else cur # tokens [] cs)
      else tokens (cur @ [c]) cs)"

definition split_ws :: "pystr \<Rightarrow> pystr list" where
  "split_ws s = tokens [] s"

fun css_matches :: "css \<Rightarrow> node list \<Rightarrow> node \<Rightarrow> bool" where
  "css_matches (Tag t) anc e = (name_of e = Some t)"
| "css_matches (Class c) anc e =
     (case attr e (py ''class'') of None \<Rightarrow> False | Some v \<Rightarrow> c \<in> set (split_ws v))"
| "css_matches (Id i) anc e = (attr e (py ''id'') = Some i)"
| "css_matches (HasAttr k) anc e = (attr e k \<noteq> None)"
| "css_matches (AttrSub k v) anc e =
     (case attr e k of None \<Rightarrow> False | Some w \<Rightarrow> contains v w)"
| "css_matches (AttrEq k v) anc e = (attr e k = Some v)"
| "css_matches (Both a b) anc e = (css_matches a anc e \<and> css_matches b anc e)"
| "css_matches (Either a b) anc e = (css_matches a anc e \<or> css_matches b anc e)"
| "css_matches (Inside a b) anc e =
     (css_matches b anc e
      \<and> list_ex (\<lambda>i. css_matches a (drop (Suc i) anc) (anc ! i)) [0..<length anc])"

text \<open>The nodes below a node in document order, each with its ancestors.\<close>

fun walk :: "node list \<Rightarrow> node \<Rightarrow> (node list \<times> node) list" where
  "walk anc (Text s) = []"
| "walk anc (Comment s) = []"
| "walk anc (Special c s) = []"
| "walk anc (Elem n a cs) =
     concat (map (\<lambda>c. (Elem n a cs # anc, c) # walk (Elem n a cs # anc) c) cs)"

text \<open>\<open>tag.select(selector)\<close> and \<open>tag.select_one(selector)\<close> for these selectors.\<close>

definition select :: "css \<Rightarrow> node \<Rightarrow> node list" where
  "select sel root =
     map snd (filter (\<lambda>(anc, e). name_of e \<noteq> None \<and> css_matches sel anc e) (walk [] root))"

definition select_one :: "css \<Rightarrow> node \<Rightarrow> node option" where
  "select_one sel root = (case select sel root of [] \<Rightarrow> None | e # _ \<Rightarrow> Some e)"

section \<open>smart_parser.py: field detection\<close>

text \<open>
  \<open>SmartParser._get_field_patterns\<close>: for each field the groups of selectors, in the
  order of the source, and the validator.
\<close>

definition title_patterns :: "css list list" where
  "title_patterns =
     [[Tag (py ''h1''), Tag (py ''h2''), Tag (py ''h3''), Tag (py ''h4''), Tag (py ''h5'')],
      [Class (py ''title''), Class (py ''headline''), Class (py ''name''),
       AttrSub (py ''class'') (py ''title''), AttrSub (py ''class'') (py ''head''),
       AttrSub (py ''class'') (py ''news'')],
      [Tag (py ''a''), Tag (py ''strong''), AttrSub (py ''id'') (py ''title''),
       AttrSub (py ''id'') (py ''news'')]]"

definition link_patterns :: "css list list" where
  "link_patterns =
     [[Both (Tag (py ''a'')) (HasAttr (py ''href'')), Tag (py ''a''), HasAttr (py ''href'')]]"

definition date_patterns :: "css list list" where
  "date_patterns =
     [[Tag (py ''time''), Class (py ''date''), Class (py ''published''), Class (py ''time''),
       AttrSub (py ''class'') (py ''date''), AttrSub (py ''class'') (py ''time''),
       AttrSub (py ''class'') (py ''publish'')]]"

definition title_validator :: "node \<Rightarrow> bool" where
  "title_validator elem = (length (get_text_strip elem) > 5)"

definition link_validator :: "node \<Rightarrow> bool" where
  "link_validator elem = (name_of elem = Some (py ''a'') \<and> truthy (attr elem (py ''href'')))"

text \<open>
  The date validator searches for
  \<open>\d{4}[/-]\d{1,2}[/-]\d{1,2}|\d{1,2}[/-]\d{1,2}[/-]\d{4}\<close>. \<open>d12_sep s\<close> lists what
  can remain of \<open>s\<close> after \<open>\d{1,2}[/-]\<close> has matched at its head.
\<close>

definition is_sep :: "nat \<Rightarrow> bool" where
  "is_sep c = (c = 47 \<or> c = 45)"

fun d12_sep :: "pystr \<Rightarrow> pystr list" where
  "d12_sep (a # b # c # r) =
     (if is_digit a \<and> is_digit b \<and> is_sep c then [r] else [])
     @ (if is_digit a \<and> is_sep b then [c # r] else [])"
| "d12_sep [a, b] = (if is_digit a \<and> is_sep b then [[]] else [])"
| "d12_sep s = []"

definition date_like_at :: "pystr \<Rightarrow> unit option" where
  "date_like_at s =
     (if (4 < length s \<and> list_all is_digit (take 4 s) \<and> is_sep (s ! 4)
          \<and> list_ex (\<lambda>r. r \<noteq> [] \<and> is_digit (hd r)) (d12_sep (drop 5 s)))
         \<or> list_ex (\<lambda>r. list_ex (\<lambda>q. 4 \<le> length q \<and> list_all is_digit (take 4 q)) (d12_sep r))
              (d12_sep s)
      then Some () else None)"

definition date_validator :: "node \<Rightarrow> bool" where
  "date_validator elem = (re_search date_like_at (get_text_strip elem) \<noteq> None)"

text \<open>\<open>SmartParser._validate_element\<close> with the one validator of the field.\<close>

definition validate_element :: "(node \<Rightarrow> bool) \<Rightarrow> node \<Rightarrow> bool" where
  "validate_element validator element =
     (let text = get_text_strip element in
      if text = [] \<or> length text < 2 then False else validator element)"

text \<open>
  \<open>SmartParser._auto_detect_fields\<close>. For one field, \<open>detect_in_group\<close> is the loop over
  the selectors of one group: a selector with a validated element is recorded, and the
  loop is left as soon as the field is recorded at all, also when it was recorded by an
  earlier group; \<open>detect_field\<close> is the loop over the groups, which is never left early.
  A field that was detected as the whole container (\<open>'*'\<close>) is \<open>Whole\<close>; only the
  fallback for \<open>title\<close> produces it.
\<close>

fun detect_in_group :: "(node \<Rightarrow> bool) \<Rightarrow> node \<Rightarrow> css list \<Rightarrow> css option \<Rightarrow> css option" where
  "detect_in_group validator sample [] detected = detected"
| "detect_in_group validator sample (selector # rest) detected =
     (let detected' =
            (if list_ex (validate_element validator) (select selector sample)
             then Some selector else detected)
      in if detected' \<noteq> None then detected'
         else detect_in_group validator sample rest detected')"

definition detect_field :: "(node \<Rightarrow> bool) \<Rightarrow> node \<Rightarrow> css list list \<Rightarrow> css option" where
  "detect_field validator sample groups =
     foldl (\<lambda>detected group. detect_in_group validator sample group detected) None groups"

datatype sel = Whole | Sel css

record detected_fields =
  title_sel :: "sel option"
  link_sel :: "css option"
  date_sel :: "css option"

definition auto_detect_fields :: "node \<Rightarrow> detected_fields" where
  "auto_detect_fields sample_container =
     (let t = detect_field title_validator sample_container title_patterns;
          l = detect_field link_validator sample_container link_patterns;
          d = detect_field date_validator sample_container date_patterns
      in if t = None \<and> l = None \<and> d = None
         then \<lparr>title_sel = Some Whole, link_sel = None, date_sel = None\<rparr>
         else \<lparr>title_sel = map_option Sel t, link_sel = l, date_sel = d\<rparr>)"

section \<open>smart_parser.py: general rows\<close>

text \<open>
  The pattern \<open>id|nid=([A-F0-9]+)\<close> at the head of \<open>s\<close>: the result is group 1, which is
  \<open>None\<close> when the first alternative matched.
\<close>

definition id_or_nid_at :: "pystr \<Rightarrow> pystr option option" where
  "id_or_nid_at s =
     (if starts_with (py ''id'') s then Some None
      else (case nid_at s of None \<Rightarrow> None | Some g \<Rightarrow> Some (Some g)))"

text \<open>
  \<open>SmartParser._extract_general_row\<close>: the detected fields in the order of the
  dictionary (\<open>row1\<close> title, \<open>row2\<close> link, \<open>row3\<close> date), then the fallback to the text of
  the container (\<open>row4\<close>).
\<close>

definition extract_general_row :: "node \<Rightarrow> detected_fields \<Rightarrow> list_record option" where
  "extract_general_row container detected =
     (let row1 =
            (case title_sel detected of
               None \<Rightarrow> no_fields
             | Some Whole \<Rightarrow> no_fields\<lparr>title := Some (take 100 (get_text_strip container))\<rparr>
             | Some (Sel selector) \<Rightarrow>
                 (case select selector container of
                    [] \<Rightarrow> no_fields
                  | element # _ \<Rightarrow> no_fields\<lparr>title := Some (get_text_strip element)\<rparr>));
          row2 =
            (case link_sel detected of
               None \<Rightarrow> row1
             | Some selector \<Rightarrow>
                 (case select selector container of
                    [] \<Rightarrow> row1
                  | element # _ \<Rightarrow>
                      let href = get_str (attr element (py ''href'')) in
                      (case re_search id_or_nid_at href of
                         None \<Rightarrow> row1\<lparr>link := Some href\<rparr>
                       | Some g \<Rightarrow> row1\<lparr>link := Some href, nid := g\<rparr>)));
          row3 =
            (case date_sel detected of
               None \<Rightarrow> row2
             | Some selector \<Rightarrow>
                 (case select selector container of
                    [] \<Rightarrow> row2
                  | element # _ \<Rightarrow>
                      (case re_search date_at (strip (get_text_strip element)) of
                         None \<Rightarrow> row2
                       | Some d \<Rightarrow> row2\<lparr>date := Some d\<rparr>)));
          row4 =
            (if \<not> any_values row3
             then (let content = get_text_strip container in
                   if content \<noteq> [] then row3\<lparr>title := Some (take 100 content)\<rparr> else row3)
             else row3)
      in if truthy (title row4) then Some row4 else None)"

section \<open>smart_parser.py: parse\<close>

text \<open>
  The loop shared by \<open>_parse_table_mode\<close> and \<open>_parse_general_mode\<close>: each container is
  extracted inside \<open>try\<close>; an exception (\<open>Inl\<close>) and an empty result both go on to the
  next container.
\<close>

fun parse_rows ::
  "(node \<Rightarrow> py_error + list_record option) \<Rightarrow> node list \<Rightarrow> list_record list
     \<Rightarrow> list_record list" where
  "parse_rows extract [] data_list = data_list"
| "parse_rows extract (container # rest) data_list =
     (case extract container of
        Inl e \<Rightarrow> parse_rows extract rest data_list
      | Inr None \<Rightarrow> parse_rows extract rest data_list
      | Inr (Some row) \<Rightarrow>
          if any_values row then parse_rows extract rest (data_list @ [row])
          else parse_rows extract rest data_list)"

definition parse_table_mode :: "node list \<Rightarrow> list_record list" where
  "parse_table_mode containers =
     parse_rows
       (\<lambda>row. if name_of row \<noteq> Some (py ''tr'') then Inr None else Inr (extract_table_row row))
       containers []"

definition parse_general_mode :: "node list \<Rightarrow> list_record list" where
  "parse_general_mode containers =
     (case containers of
        [] \<Rightarrow> []
      | sample_container # _ \<Rightarrow>
          let detected = auto_detect_fields sample_container in
          parse_rows (\<lambda>container. Inr (extract_general_row container detected)) containers [])"

definition validate_data :: "list_record list \<Rightarrow> list_record list" where
  "validate_data data_list = [item \<leftarrow> data_list. truthy (title item)]"

text \<open>
  \<open>SmartParser._is_table_mode\<close>. \<open>lower\<close> is \<open>str.lower\<close> on the ASCII letters, which is
  all that can turn a character into one of the letters of the five indicators.
\<close>

definition lower :: "pystr \<Rightarrow> pystr" where
  "lower s = map (\<lambda>c. if 65 \<le> c \<and> c \<le> 90 then c + 32 else c) s"

definition is_table_mode :: "pystr \<Rightarrow> bool" where
  "is_table_mode selector =
     list_ex (\<lambda>indicator. contains indicator (lower selector))
       [py ''tbody'', py ''table'', py ''tr'', py ''td'', py ''th'']"

text \<open>The slice \<open>xs[:n]\<close> for an integer \<open>n\<close>.\<close>

definition slice_to :: "int \<Rightarrow> 'a list \<Rightarrow> 'a list" where
  "slice_to n xs = (if 0 \<le> n then take (nat n) xs else take (length xs - nat (- n)) xs)"

text \<open>
  \<open>SmartParser.parse\<close>. The container selector comes from the configuration and is any
  string; \<open>soup.select\<close> hands it to the selector library, which returns the matching
  elements or raises on a selector it cannot parse. That library is the parameter
  \<open>css_select\<close>. \<open>max_items\<close> is the field of the parser object; \<open>soup\<close> is \<open>None\<close> when
  the fetch failed.
\<close>

definition parse ::
  "(pystr \<Rightarrow> node \<Rightarrow> py_error + node list) \<Rightarrow> int \<Rightarrow> node option \<Rightarrow> pystr \<Rightarrow> bool option
     \<Rightarrow> py_error + list_record list" where
  "parse css_select max_items soup container_selector table_mode =
     (case soup of
        None \<Rightarrow> Inr []
      | Some page \<Rightarrow>
          let auto_table_mode = (table_mode = Some True \<or> is_table_mode container_selector) in
          (case css_select container_selector page of
             Inl e \<Rightarrow> Inl e
           | Inr containers \<Rightarrow>
               if containers = [] then Inr []
               else
                 let data_list =
                       (if auto_table_mode then parse_table_mode containers
                        else parse_general_mode containers);
                     valid_data = validate_data data_list
                 in Inr (slice_to max_items valid_data)))"

section \<open>smart_parser.py: pagination\<close>

text \<open>
  \<open>re.findall\<close>: the matches from left to right, none overlapping another. \<open>m\<close> says
  whether the pattern matches at the head of a suffix, how long the match is and what
  its groups are; \<open>skip\<close> counts the characters of the last match still to be passed.
\<close>

fun re_findall :: "(pystr \<Rightarrow> (nat \<times> 'a) option) \<Rightarrow> nat \<Rightarrow> pystr \<Rightarrow> 'a list" where
  "re_findall m skip [] = []"
| "re_findall m skip (c # cs) =
     (if 0 < skip then re_findall m (skip - 1) cs
      else (case m (c # cs) of
              None \<Rightarrow> re_findall m 0 cs
            | Some (len, g) \<Rightarrow> g # re_findall m (len - 1) cs))"

text \<open>The pattern \<open>(?:pg=|page=)(\d+)\<close> at the head of \<open>s\<close>: length and group 1.\<close>

definition page_number_at :: "pystr \<Rightarrow> (nat \<times> pystr) option" where
  "page_number_at s =
     (let k = (if starts_with (py ''pg='') s then 3
               else if starts_with (py ''page='') s then 5 else 0);
          digits = takeWhile is_digit (drop k s)
      in if 0 < k \<and> digits \<noteq> [] then Some (k + length digits, digits) else None)"

text \<open>
  \<open>str.isdigit\<close> holds for a string that is not empty and whose characters all have the
  Unicode property of a digit: the decimal digits, and also the superscript, subscript,
  circled and other digits that \<open>other_digit_ranges\<close> lists (Unicode 14). \<open>int(s)\<close> reads
  a string of decimal digits, of any script, by their values; it raises \<open>ValueError\<close> on
  a string with another character, which \<open>str.isdigit\<close> may have accepted, and on a
  string of more than 4300 digits, the limit of the interpreter unless it is configured
  otherwise (\<open>sys.set_int_max_str_digits\<close>). \<open>py_int\<close> is \<open>int\<close> on the strings that the
  program gives it, the matches of \<open>\d+\<close> and the strings that \<open>str.isdigit\<close> accepts,
  where signs, blanks and underscores do not occur.
\<close>

definition int_of_digits :: "pystr \<Rightarrow> int" where
  "int_of_digits s =
     foldl (\<lambda>a c. 10 * a + (case decimal_value c of Some v \<Rightarrow> int v | None \<Rightarrow> 0)) 0 s"

definition other_digit_ranges :: "(nat \<times> nat) list" where
  "other_digit_ranges =
     [(178, 179), (185, 185), (4969, 4977), (6618, 6618), (8304, 8304), (8308, 8313),
      (8320, 8329), (9312, 9320), (9332, 9340), (9352, 9360), (9450, 9450), (9461, 9469),
      (9471, 9471), (10102, 10110), (10112, 10120), (10122, 10130), (68160, 68163),
      (69216, 69224), (69714, 69722), (127232, 127242)]"

definition isdigit_char :: "nat \<Rightarrow> bool" where
  "isdigit_char c =
     (is_digit c \<or> (128 \<le> c \<and> list_ex (\<lambda>(lo, hi). lo \<le> c \<and> c \<le> hi) other_digit_ranges))"

definition isdigit :: "pystr \<Rightarrow> bool" where
  "isdigit s = (s \<noteq> [] \<and> list_all isdigit_char s)"

definition int_max_str_digits :: nat where
  "int_max_str_digits = 4300"

definition int_accepts :: "pystr \<Rightarrow> bool" where
  "int_accepts s = (s \<noteq> [] \<and> list_all is_digit s \<and> length s \<le> int_max_str_digits)"

definition py_int :: "pystr \<Rightarrow> py_error + int" where
  "py_int s = (if int_accepts s then Inr (int_of_digits s) else Inl ValueError)"

text \<open>
  The pattern of the pagination text. Its first alternative is an optional character
  U+5171 (code point 20849), digits, optional white space and the character U+9801 (code
  point 38913, "page"); the second is digits, a slash, digits and U+9801, with optional
  white space between them; the third is \<open>total\<close>, white space and digits. The result is
  the length of the match and its groups that are not empty.
\<close>

definition total_at :: "pystr \<Rightarrow> (nat \<times> pystr list) option" where
  "total_at s =
     (let s1 = (if starts_with [20849] s then drop 1 s else s);
          d1 = takeWhile is_digit s1;
          r1 = dropWhile is_space (drop (length d1) s1);
          d2 = takeWhile is_digit s;
          r2 = dropWhile is_space (drop (length d2) s);
          r3 = dropWhile is_space (drop 1 r2);
          d3 = takeWhile is_digit r3;
          r4 = dropWhile is_space (drop (length d3) r3);
          r5 = drop 5 s;
          d5 = takeWhile is_digit (dropWhile is_space r5)
      in if d1 \<noteq> [] \<and> starts_with [38913] r1 then Some (length s - length r1 + 1, [d1])
         else if d2 \<noteq> [] \<and> starts_with (py ''/'') r2 \<and> d3 \<noteq> [] \<and> starts_with [38913] r4
         then Some (length s - length r4 + 1, [d2, d3])
         else if starts_with (py ''total'') s \<and> takeWhile is_space r5 \<noteq> [] \<and> d5 \<noteq> []
         then Some (5 + length (takeWhile is_space r5) + length d5, [d5])
         else None)"

text \<open>
  \<open>tag.string\<close>: the string of a tag whose only child is a string, of whichever kind,
  or whose only child is a tag that has a \<open>string\<close>.
\<close>

fun node_string :: "node \<Rightarrow> pystr option" where
  "node_string (Text s) = Some s"
| "node_string (Comment s) = Some s"
| "node_string (Special c s) = Some s"
| "node_string (Elem n a [c]) = node_string c"
| "node_string (Elem n a cs) = None"

text \<open>
  \<open>soup.find_all('a', href=True)\<close>, and \<open>soup.find_all('a', string=pattern)\<close> for a
  compiled pattern, given as the test \<open>p\<close> of whether the pattern is found in a string.
\<close>

definition links_with_href :: "node \<Rightarrow> node list" where
  "links_with_href soup = [a \<leftarrow> find_all [py ''a''] soup. attr a (py ''href'') \<noteq> None]"

definition links_with_string :: "(pystr \<Rightarrow> bool) \<Rightarrow> node \<Rightarrow> node list" where
  "links_with_string p soup =
     [a \<leftarrow> find_all [py ''a''] soup.
        (case node_string a of None \<Rightarrow> False | Some s \<Rightarrow> p s)]"

text \<open>
  The pattern of the last-page links: the two characters U+6700 U+5F8C ("last"), or
  \<open>last\<close>, or the characters U+5C3E U+9801 ("end page"), or \<open>more\<close>, or \<open>\d+$\<close>, where
  \<open>$\<close> is the end of the string or the place before a final line feed. The pattern of
  the next-page link: the characters U+4E0B U+4E00 U+9801 ("next page"), or \<open>next\<close>.
\<close>

definition ends_with_digits :: "pystr \<Rightarrow> bool" where
  "ends_with_digits s =
     (case rev s of
        [] \<Rightarrow> False
      | c # r \<Rightarrow> is_digit c \<or> (c = 10 \<and> r \<noteq> [] \<and> is_digit (hd r)))"

definition last_pattern :: "pystr \<Rightarrow> bool" where
  "last_pattern s =
     (contains [26368, 24460] s \<or> contains (py ''last'') s \<or> contains [23614, 38913] s
      \<or> contains (py ''more'') s \<or> ends_with_digits s)"

definition next_pattern :: "pystr \<Rightarrow> bool" where
  "next_pattern s = (contains [19979, 19968, 38913] s \<or> contains (py ''next'') s)"

text \<open>
  \<open>SmartParser._extract_total_pages_from_pagination\<close>. The three signals, in the order
  of the source: the page numbers in the links, the numbers in the text of the
  pagination container (the groups of a match that are not empty), and the numeric texts
  of the last-page links; then the next-page link and the floor. \<open>max_pages\<close> is the
  loop \<open>max_page = max(max_page, int(num))\<close> over the numerals of one signal; \<open>int\<close>
  can raise in it.
\<close>

definition link_numbers :: "node \<Rightarrow> pystr list" where
  "link_numbers soup =
     concat (map (\<lambda>link. re_findall page_number_at 0 (get_str (attr link (py ''href''))))
               (links_with_href soup))"

definition container_numbers :: "node option \<Rightarrow> pystr list" where
  "container_numbers pagination =
     (case pagination of
        None \<Rightarrow> []
      | Some container \<Rightarrow> concat (re_findall total_at 0 (get_text container)))"

definition last_link_texts :: "node \<Rightarrow> pystr list" where
  "last_link_texts soup =
     [page_text \<leftarrow> map (\<lambda>link. strip (get_text link)) (links_with_string last_pattern soup).
        isdigit page_text]"

fun max_pages :: "pystr list \<Rightarrow> int \<Rightarrow> py_error + int" where
  "max_pages [] max_page = Inr max_page"
| "max_pages (num # rest) max_page =
     (case py_int num of
        Inl e \<Rightarrow> Inl e
      | Inr n \<Rightarrow> max_pages rest (max max_page n))"

definition extract_total_pages_from_pagination :: "node \<Rightarrow> node option \<Rightarrow> py_error + int" where
  "extract_total_pages_from_pagination soup pagination =
     (case max_pages (link_numbers soup) 1 of
        Inl e \<Rightarrow> Inl e
      | Inr max_page1 \<Rightarrow>
          (case max_pages (container_numbers pagination) max_page1 of
             Inl e \<Rightarrow> Inl e
           | Inr max_page2 \<Rightarrow>
               (case max_pages (last_link_texts soup) max_page2 of
                  Inl e \<Rightarrow> Inl e
                | Inr max_page3 \<Rightarrow>
                    let next_page = links_with_string next_pattern soup;
                        max_page4 = (if next_page \<noteq> [] \<and> max_page3 = 1 then 2
                                     else max_page3)
                    in Inr (max 1 max_page4))))"

text \<open>
  \<open>soup.find('meta', {'property': 'og:url'})\<close> and
  \<open>soup.find('link', {'rel': 'canonical'})\<close>; \<open>rel\<close> is an attribute with a list of
  values, one of which has to be \<open>canonical\<close>.
\<close>

definition find_og_url :: "node \<Rightarrow> node option" where
  "find_og_url soup =
     (case [m \<leftarrow> find_all [py ''meta''] soup. attr m (py ''property'') = Some (py ''og:url'')] of
        [] \<Rightarrow> None | m # _ \<Rightarrow> Some m)"

definition find_canonical :: "node \<Rightarrow> node option" where
  "find_canonical soup =
     (case [l \<leftarrow> find_all [py ''link''] soup.
              (case attr l (py ''rel'') of
                 None \<Rightarrow> False | Some v \<Rightarrow> py ''canonical'' \<in> set (split_ws v))] of
        [] \<Rightarrow> None | l # _ \<Rightarrow> Some l)"

text \<open>
  \<open>SmartParser._extract_current_page\<close>. An element without a \<open>content\<close> attribute gives
  \<open>None\<close> to \<open>re.search\<close>, which raises \<open>TypeError\<close>. \<open>current_indicators\<close> is the loop
  over the four selectors.
\<close>

fun current_indicators :: "css list \<Rightarrow> node \<Rightarrow> py_error + int" where
  "current_indicators [] soup = Inr 1"
| "current_indicators (selector # rest) soup =
     (case select_one selector soup of
        None \<Rightarrow> current_indicators rest soup
      | Some current_elem \<Rightarrow>
          let page_text = strip (get_text current_elem) in
          if isdigit page_text then py_int page_text else current_indicators rest soup)"

definition extract_current_page :: "node \<Rightarrow> py_error + int" where
  "extract_current_page soup =
     (let current_url_elem =
            (case find_og_url soup of Some m \<Rightarrow> Some m | None \<Rightarrow> find_canonical soup)
      in case (case current_url_elem of
                 None \<Rightarrow> Inr []
               | Some e \<Rightarrow> (case attr e (py ''content'') of
                              None \<Rightarrow> Inl TypeError | Some u \<Rightarrow> Inr u)) of
           Inl e \<Rightarrow> Inl e
         | Inr current_url \<Rightarrow>
             (case re_search page_number_at current_url of
                Some (len, digits) \<Rightarrow> py_int digits
              | None \<Rightarrow>
                  current_indicators
                    [Class (py ''active''), Class (py ''current''),
                     AttrEq (py ''aria-current'') (py ''page''), Class (py ''on'')] soup))"

text \<open>\<open>SmartParser._get_base_url\<close>\<close>

definition get_base_url :: "node \<Rightarrow> pystr" where
  "get_base_url soup =
     (case (case find_canonical soup of
              None \<Rightarrow> None
            | Some canonical \<Rightarrow>
                if truthy (attr canonical (py ''href'')) then attr canonical (py ''href'')
                else None) of
        Some href \<Rightarrow> href
      | None \<Rightarrow>
          (case (case find_og_url soup of
                   None \<Rightarrow> None
                 | Some og_url \<Rightarrow>
                     if truthy (attr og_url (py ''content'')) then attr og_url (py ''content'')
                     else None) of
             Some content \<Rightarrow> content
           | None \<Rightarrow>
               (case links_with_href soup of
                  [] \<Rightarrow> []
                | first_link # _ \<Rightarrow> get_str (attr first_link (py ''href'')))))"

text \<open>
  \<open>SmartParser.detect_pagination\<close> with its default list of selectors. The result
  dictionary is the record \<open>pagination_info\<close>.
\<close>

definition common_selectors :: "css list" where
  "common_selectors =
     [Class (py ''pagination''), Class (py ''pager''), AttrSub (py ''class'') (py ''page''),
      AttrSub (py ''class'') (py ''pagination''),
      Both (Tag (py ''ul'')) (Class (py ''pagination'')), Class (py ''page-numbers''),
      Id (py ''pagination''), Both (Tag (py ''nav'')) (Class (py ''pagination'')),
      Class (py ''paging''), Both (Tag (py ''div'')) (Class (py ''pager'')),
      Class (py ''pagination-info''), AttrSub (py ''id'') (py ''page''),
      Inside (Class (py ''pager'')) (Tag (py ''li'')),
      Both (Tag (py ''ul'')) (Class (py ''page'')), Class (py ''pages''),
      AttrSub (py ''class'') (py ''nav'')]"

record pagination_info =
  total_pages :: int
  current_page :: int
  page_pattern :: pystr
  base_url :: "pystr option"
  pagination_selector :: "css option"

fun first_container :: "css list \<Rightarrow> node \<Rightarrow> (css \<times> node) option" where
  "first_container [] soup = None"
| "first_container (selector # rest) soup =
     (case select_one selector soup of
        None \<Rightarrow> first_container rest soup
      | Some pagination \<Rightarrow> Some (selector, pagination))"

definition detect_pagination :: "node \<Rightarrow> py_error + pagination_info" where
  "detect_pagination soup =
     (let info0 = \<lparr>total_pages = 1, current_page = 1, page_pattern = py ''pg={page}'',
                   base_url = None, pagination_selector = None\<rparr>;
          found = first_container common_selectors soup;
          info1 = info0\<lparr>pagination_selector := map_option fst found\<rparr>
      in case extract_total_pages_from_pagination soup (map_option snd found) of
           Inl e \<Rightarrow> Inl e
         | Inr total_found \<Rightarrow>
             let info2 = (if 1 < total_found then info1\<lparr>total_pages := total_found\<rparr>
                          else info1) in
             (case extract_current_page soup of
                Inl e \<Rightarrow> Inl e
              | Inr current_found \<Rightarrow>
                  let info3 = (if current_found \<noteq> 0
                               then info2\<lparr>current_page := current_found\<rparr> else info2);
                      url = get_base_url soup
                  in Inr (if url \<noteq> []
                          then info3\<lparr>base_url := Some url, page_pattern := py ''pg={page}''\<rparr>
                          else info3)))"

section \<open>main.py and excel_manager.py: one run of a site\<close>

text \<open>
  \<open>fetch_detail_page\<close>. What the function reads from the detail page is given by the
  record \<open>detail_page\<close>: the first and last day that its time block assigns (\<open>None\<close> when
  the page has no time element or the date library rejects its text), and the texts of
  the place and organizer elements when the page has them. \<open>fetch\<close> stands for
  \<open>crawler.fetch\<close> on the joined URL inside the retry loop: the page of the first
  attempt that succeeds, or \<open>None\<close> when every attempt fails. \<open>now\<close> is the time stamp.
\<close>

record detail_page =
  time_days :: "(pystr \<times> pystr) option"
  place :: "pystr option"
  organizer_text :: "pystr option"

fun cell_of :: "pystr option \<Rightarrow> cell" where
  "cell_of None = CNone"
| "cell_of (Some s) = CStr s"

definition fetch_detail_page ::
  "(pystr \<Rightarrow> detail_page option) \<Rightarrow> pystr \<Rightarrow> list_record \<Rightarrow> detail_record option" where
  "fetch_detail_page fetch now item =
     (let detail_url = get_str (link item) in
      if detail_url = [] then None
      else
        (case fetch detail_url of
           None \<Rightarrow> None
         | Some page \<Rightarrow>
             let data1 = \<lparr>event_name = CStr (strip (get_str (title item))),
                          fetched_at = CStr now, organizer = CNone, location = CNone,
                          start_date = cell_of (date item), end_date = cell_of (date item)\<rparr>;
                 data2 = (case time_days page of
                            None \<Rightarrow> data1
                          | Some (first_day, last_day) \<Rightarrow>
                              data1\<lparr>start_date := CStr first_day, end_date := CStr last_day\<rparr>);
                 data3 = (case place page of
                            None \<Rightarrow> data2 | Some p \<Rightarrow> data2\<lparr>location := CStr p\<rparr>);
                 data4 = (case organizer_text page of
                            None \<Rightarrow> data3 | Some p \<Rightarrow> data3\<lparr>organizer := CStr p\<rparr>)
             in if \<not> truthy_cell (event_name data4) then None else Some data4))"

text \<open>
  \<open>filter_data_by_organizer\<close>; \<open>filtered_site\<close> says that the URL of the site is the
  one the filter is written for. The two organizer names are the strings of code points
  U+6559 U+5E2B U+6559 U+5B78 U+767C U+5C55 U+4E2D U+5FC3 and U+6559 U+767C U+4E2D U+5FC3.
\<close>

definition filter_data_by_organizer :: "detail_record list \<Rightarrow> bool \<Rightarrow> detail_record list" where
  "filter_data_by_organizer data filtered_site =
     (if \<not> filtered_site then data
      else [item \<leftarrow> data.
              organizer item \<in> {CStr [25945, 24107, 25945, 23416, 30332, 23637, 20013, 24515],
                                 CStr [25945, 30332, 20013, 24515]}])"

text \<open>
  \<open>ExcelManager.save_data\<close> followed by \<open>ExcelManager.load_data\<close>: the store is the
  list of rows that \<open>load_data\<close> returns. The rows are appended to the loaded ones; of the
  rows with the same name and start date (missing values being equal to each other) the
  last is kept; the start date goes through \<open>pandas.to_datetime\<close> and back to a string,
  which is the parameter \<open>to_datetime\<close> (\<open>None\<close> for a value that is no date); the rows are
  sorted by start date, rows without one last (rows with equal dates keep their order
  here); and a missing value comes back from the file as NaN, as does the empty string
  and every other string that the reader of the file takes for a missing value by default
  (\<open>na_values\<close>, the list of pandas 2). The other strings come back as they were
  written, which holds when not every string of a column reads as a number.
\<close>

fun present :: "cell \<Rightarrow> pystr option" where
  "present (CStr s) = Some s"
| "present c = None"

fun drop_duplicates_last :: "detail_record list \<Rightarrow> detail_record list" where
  "drop_duplicates_last [] = []"
| "drop_duplicates_last (row # rest) =
     (if list_ex (\<lambda>later. present (event_name later) = present (event_name row)
                          \<and> present (start_date later) = present (start_date row)) rest
      then drop_duplicates_last rest
      else row # drop_duplicates_last rest)"

definition normalise_start :: "(pystr \<Rightarrow> pystr option) \<Rightarrow> detail_record \<Rightarrow> detail_record" where
  "normalise_start to_datetime row =
     row\<lparr>start_date :=
           (case present (start_date row) of
              None \<Rightarrow> CNaN
            | Some s \<Rightarrow> (case to_datetime s of None \<Rightarrow> CNaN | Some d \<Rightarrow> CStr d))\<rparr>"

fun str_le :: "pystr \<Rightarrow> pystr \<Rightarrow> bool" where
  "str_le [] t = True"
| "str_le (a # s) [] = False"
| "str_le (a # s) (b # t) = (a < b \<or> (a = b \<and> str_le s t))"

definition start_before :: "detail_record \<Rightarrow> detail_record \<Rightarrow> bool" where
  "start_before r x =
     (case present (start_date r) of
        None \<Rightarrow> False
      | Some s \<Rightarrow> (case present (start_date x) of None \<Rightarrow> True | Some t \<Rightarrow> \<not> str_le t s))"

fun insert_row :: "detail_record \<Rightarrow> detail_record list \<Rightarrow> detail_record list" where
  "insert_row r [] = [r]"
| "insert_row r (x # xs) = (if start_before r x then r # x # xs else x # insert_row r xs)"

definition sort_rows :: "detail_record list \<Rightarrow> detail_record list" where
  "sort_rows rows = foldl (\<lambda>sorted r. insert_row r sorted) [] rows"

definition na_values :: "pystr list" where
  "na_values =
     map py ['''', ''#N/A'', ''#N/A N/A'', ''#NA'', ''-1.#IND'', ''-1.#QNAN'', ''-NaN'', ''-nan'',
             ''1.#IND'', ''1.#QNAN'', ''<NA>'', ''N/A'', ''NA'', ''NULL'', ''NaN'', ''None'',
             ''n/a'', ''nan'', ''null'']"

definition reload_cell :: "cell \<Rightarrow> cell" where
  "reload_cell c =
     (case present c of
        None \<Rightarrow> CNaN
      | Some s \<Rightarrow> if s \<in> set na_values then CNaN else CStr s)"

definition reload_row :: "detail_record \<Rightarrow> detail_record" where
  "reload_row row =
     \<lparr>event_name = reload_cell (event_name row), fetched_at = reload_cell (fetched_at row),
      organizer = reload_cell (organizer row), location = reload_cell (location row),
      start_date = reload_cell (start_date row), end_date = reload_cell (end_date row)\<rparr>"

definition save_data ::
  "(pystr \<Rightarrow> pystr option) \<Rightarrow> detail_record list \<Rightarrow> detail_record list \<Rightarrow> detail_record list" where
  "save_data to_datetime store data_list =
     (if data_list = [] then store
      else map reload_row
             (sort_rows (map (normalise_start to_datetime)
                (drop_duplicates_last (store @ data_list)))))"

text \<open>
  \<open>monitor_site\<close> from the point where the listing has been extracted (\<open>list_data\<close>) to
  its end. The function returns the records it saved; the model gives, beside them, the
  records that it classified as new and the store after the run.
\<close>

record run_result =
  new_items :: "list_record list"
  saved :: "detail_record list"
  store_after :: "detail_record list"

definition monitor_site ::
  "(pystr \<Rightarrow> detail_page option) \<Rightarrow> pystr \<Rightarrow> (pystr \<Rightarrow> pystr option) \<Rightarrow> bool
     \<Rightarrow> detail_record list \<Rightarrow> list_record list \<Rightarrow> run_result" where
  "monitor_site fetch now to_datetime filtered_site store list_data =
     (if list_data = [] then \<lparr>new_items = [], saved = [], store_after = store\<rparr>
      else
        let existing_data = store;
            new_found = detect_new_data list_data existing_data
        in if new_found = [] then \<lparr>new_items = [], saved = [], store_after = store\<rparr>
           else
             let detailed_data = List.map_filter (fetch_detail_page fetch now) new_found;
                 filtered_data = filter_data_by_organizer detailed_data filtered_site
             in if filtered_data = []
                then \<lparr>new_items = new_found, saved = [], store_after = store\<rparr>
                else \<lparr>new_items = new_found, saved = filtered_data,
                      store_after = save_data to_datetime store filtered_data\<rparr>)"

section \<open>Example inputs\<close>

definition ex_fresh_undated :: list_record where
  "ex_fresh_undated =
     \<lparr>title = Some (py ''A''), link = None, date = None, nid = None, hash = None\<rparr>"

definition ex_stored_undated :: detail_record where
  "ex_stored_undated =
     \<lparr>event_name = CStr (py ''A''), fetched_at = CNone, organizer = CNone,
      location = CNone, start_date = CStr [], end_date = CNone\<rparr>"

definition ex_fresh_a :: list_record where
  "ex_fresh_a =
     \<lparr>title = Some (py ''A''), link = None, date = Some (py ''2024-05-01''),
      nid = None, hash = None\<rparr>"

definition ex_fresh_b :: list_record where
  "ex_fresh_b =
     \<lparr>title = Some (py ''B''), link = None, date = Some (py ''2024-05-01''),
      nid = None, hash = None\<rparr>"

definition ex_stored_a :: detail_record where
  "ex_stored_a =
     \<lparr>event_name = CStr (py ''A''), fetched_at = CNone, organizer = CNone,
      location = CNone, start_date = CStr (py ''2024-05-01''), end_date = CNone\<rparr>"

definition ex_nid_a_hash_h :: list_record where
  "ex_nid_a_hash_h =
     \<lparr>title = Some (py ''x''), link = None, date = None,
      nid = Some (py ''A''), hash = Some (py ''H'')\<rparr>"

definition ex_nid_b_hash_h :: list_record where
  "ex_nid_b_hash_h =
     \<lparr>title = Some (py ''y''), link = None, date = None,
      nid = Some (py ''B''), hash = Some (py ''H'')\<rparr>"

definition ex_nid_a_again :: list_record where
  "ex_nid_a_again =
     \<lparr>title = Some (py ''z''), link = None, date = None,
      nid = Some (py ''A''), hash = None\<rparr>"

definition ex_site_url :: parsed_url where
  "ex_site_url = \<lparr>scheme = py ''https'', netloc = py ''site'', path = py ''/x.aspx''\<rparr>"

definition ex_site_query :: "(pystr \<times> pystr list) list" where
  "ex_site_query = [(py ''spid'', [py ''XYZ''])]"

definition ex_page_config :: "(pystr \<times> pystr) list" where
  "ex_page_config = [(py ''page_param'', py ''page'')]"

text \<open>
  The row
  \<open><tr><td><a href="detail.aspx?nid=AB12">Event X</a></td><td>2024-05-01</td></tr>\<close>
  of the specification.
\<close>

definition ex_row_spec :: node where
  "ex_row_spec =
     Elem (py ''tr'') []
       [Elem (py ''td'') []
          [Elem (py ''a'') [(py ''href'', py ''detail.aspx?nid=AB12'')] [Text (py ''Event X'')]],
        Elem (py ''td'') [] [Text (py ''2024-05-01'')]]"

text \<open>
  The same row with a hidden span in the first cell that holds another date:
  \<open><tr><td><a href="detail.aspx?nid=AB12">Event X</a><span class="hidden">2024-01-01</span></td><td>2024-05-01</td></tr>\<close>
\<close>

definition ex_link :: node where
  "ex_link = Elem (py ''a'') [(py ''href'', py ''detail.aspx?nid=AB12'')] [Text (py ''Event X'')]"

definition ex_cell_span :: node where
  "ex_cell_span =
     Elem (py ''td'') []
       [ex_link, Elem (py ''span'') [(py ''class'', py ''hidden'')] [Text (py ''2024-01-01'')]]"




text \<open>
  A row whose link carries no \<open>nid\<close>:
  \<open><tr><td><a href="detail.aspx?no=7">Event Y</a></td><td>2024-05-02</td></tr>\<close>,
  and the record extracted from it.
\<close>

definition ex_row_no_nid :: node where
  "ex_row_no_nid =
     Elem (py ''tr'') []
       [Elem (py ''td'') []
          [Elem (py ''a'') [(py ''href'', py ''detail.aspx?no=7'')] [Text (py ''Event Y'')]],
        Elem (py ''td'') [] [Text (py ''2024-05-02'')]]"

definition ex_record_no_nid :: list_record where
  "ex_record_no_nid =
     \<lparr>title = Some (py ''Event Y''), link = Some (py ''detail.aspx?no=7''),
      date = Some (py ''2024-05-02''), nid = None, hash = None\<rparr>"

definition ex_record_spec :: list_record where
  "ex_record_spec =
     \<lparr>title = Some (py ''Event X''), link = Some (py ''detail.aspx?nid=AB12''),
      date = Some (py ''2024-05-01''), nid = Some (py ''AB12''), hash = None\<rparr>"

text \<open>A page with a table of two rows.\<close>

definition ex_page :: node where
  "ex_page = Elem (py ''[document]'') [] [Elem (py ''table'') [] [ex_row_spec, ex_row_no_nid]]"

text \<open>
  A selector library for the examples: it answers \<open>tr\<close> with the table rows of the page,
  rejects the malformed selector \<open>div[\<close>, as the library that BeautifulSoup calls does,
  and finds nothing for any other selector.
\<close>

definition ex_css_select :: "pystr \<Rightarrow> node \<Rightarrow> py_error + node list" where
  "ex_css_select selector page =
     (if selector = py ''tr'' then Inr (find_all [py ''tr''] page)
      else if selector = py ''div['' then Inl SelectorSyntaxError
      else Inr [])"

text \<open>An extractor that raises on every \<open>p\<close> element and reads table rows otherwise.\<close>

definition ex_extract :: "node \<Rightarrow> py_error + list_record option" where
  "ex_extract container =
     (if name_of container = Some (py ''p'') then Inl TypeError
      else Inr (extract_table_row container))"

text \<open>
  Pages for the pagination examples: one whose only link is \<open>list.aspx?pg=5\<close>; one with
  \<open><div class="pagination">...</div>\<close> holding the text of U+5171, a blank, \<open>3\<close>, a blank
  and U+9801; one with a link to \<open>list.aspx?pg=1\<close> and a link with the text \<open>next\<close>; and
  one whose \<open>og:url\<close> is \<open>list.aspx?pg=0\<close>.
\<close>

definition ex_page_pg5 :: node where
  "ex_page_pg5 =
     Elem (py ''[document]'') []
       [Elem (py ''a'') [(py ''href'', py ''list.aspx?pg=5'')] [Text (py ''news'')]]"

definition ex_page_total3 :: node where
  "ex_page_total3 =
     Elem (py ''[document]'') []
       [Elem (py ''div'') [(py ''class'', py ''pagination'')] [Text [20849, 32, 51, 32, 38913]]]"

definition ex_page_pg1_next :: node where
  "ex_page_pg1_next =
     Elem (py ''[document]'') []
       [Elem (py ''a'') [(py ''href'', py ''list.aspx?pg=1'')] [Text (py ''first'')],
        Elem (py ''a'') [(py ''href'', py ''#'')] [Text (py ''next'')]]"

definition ex_page_pg0 :: node where
  "ex_page_pg0 =
     Elem (py ''[document]'') []
       [Elem (py ''meta'') [(py ''property'', py ''og:url''), (py ''content'', py ''list.aspx?pg=0'')] []]"

text \<open>
  A page with \<open><link rel="canonical" href="list.aspx">\<close> and no \<open>og:url\<close>: the element
  that is asked for its \<open>content\<close> has none.
\<close>

definition ex_page_canonical :: node where
  "ex_page_canonical =
     Elem (py ''[document]'') []
       [Elem (py ''link'') [(py ''rel'', py ''canonical''), (py ''href'', py ''list.aspx'')] []]"

text \<open>
  A site for two runs: its listing has one record, a detail page gives the event the days
  2024-06-01 to 2024-06-03, and \<open>to_datetime\<close> leaves a date written as \<open>YYYY-MM-DD\<close> as
  it is.
\<close>

definition ex_listed :: list_record where
  "ex_listed =
     \<lparr>title = Some (py ''Event X''), link = Some (py ''detail.aspx?nid=AB12''),
      date = Some (py ''2024-05-01''), nid = Some (py ''AB12''), hash = None\<rparr>"

definition ex_fetch :: "pystr \<Rightarrow> detail_page option" where
  "ex_fetch url =
     Some \<lparr>time_days = Some (py ''2024-06-01'', py ''2024-06-03''), place = None,
           organizer_text = None\<rparr>"

definition ex_to_datetime :: "pystr \<Rightarrow> pystr option" where
  "ex_to_datetime s = (if date_at s = Some s then Some s else None)"

definition ex_stored_row :: detail_record where
  "ex_stored_row =
     \<lparr>event_name = CStr (py ''Event X''), fetched_at = CStr (py ''2024-05-10 08:00:00''),
      organizer = CNaN, location = CNaN, start_date = CStr (py ''2024-06-01''),
      end_date = CStr (py ''2024-06-03'')\<rparr>"


text \<open>
  Inputs with digits beyond ASCII and with a comment. A row with the hidden span of
  above and a second cell that writes the date 2024-05-01 in full-width digits (code
  points from 65296) and ASCII hyphens; a pagination container with the text U+5171,
  full-width 5, U+9801; a page with a link whose text is a superscript 4 (code point
  8308) followed by \<open>5\<close>; a page with the link \<open><a href="#"><!--next--></a>\<close>; and the
  element \<open><script>next</script>\<close>, alone and in a link.
\<close>

definition ex_fullwidth_date :: pystr where
  "ex_fullwidth_date = [65298, 65296, 65298, 65300, 45, 65296, 65301, 45, 65296, 65297]"

definition ex_row_fullwidth_date :: node where
  "ex_row_fullwidth_date =
     Elem (py ''tr'') [] [ex_cell_span, Elem (py ''td'') [] [Text ex_fullwidth_date]]"

definition ex_page_fullwidth_total :: node where
  "ex_page_fullwidth_total =
     Elem (py ''[document]'') []
       [Elem (py ''div'') [(py ''class'', py ''pagination'')] [Text [20849, 65301, 38913]]]"

definition ex_page_superscript :: node where
  "ex_page_superscript =
     Elem (py ''[document]'') [] [Elem (py ''a'') [(py ''href'', py ''#'')] [Text [8308, 53]]]"

definition ex_page_comment_next :: node where
  "ex_page_comment_next =
     Elem (py ''[document]'') []
       [Elem (py ''a'') [(py ''href'', py ''#'')] [Comment (py ''next'')]]"

definition ex_script :: node where
  "ex_script = Elem (py ''script'') [] [Special (py ''script'') (py ''next'')]"

definition ex_page_script_next :: node where
  "ex_page_script_next =
     Elem (py ''[document]'') [] [Elem (py ''a'') [(py ''href'', py ''#'')] [ex_script]]"
section \<open>The new-record detector\<close>

lemma in_existing_keys:
  "(a, b) \<in> set (existing_keys ex) \<longleftrightarrow>
     (\<exists>p \<in> set ex. truthy_cell (event_name p) \<and> truthy_cell (start_date p)
        \<and> event_name p = a \<and> start_date p = b)"
  by (auto simp: existing_keys_def)

text \<open>
  On a store in which no name and no start date is the empty string or missing, as in
  the rows that come out of the Excel file (an empty cell is NaN there), the key set is
  the set of all \<open>(name, start date)\<close> pairs of the store.
\<close>

lemma detect_new_data_loaded_store:
  assumes "\<forall>p \<in> set existing_data. truthy_cell (event_name p) \<and> truthy_cell (start_date p)"
  shows "detect_new_data new_data existing_data =
           filter (\<lambda>item. (CStr (get_str (title item)), CStr (get_str (date item)))
                            \<notin> (\<lambda>p. (event_name p, start_date p)) ` set existing_data) new_data"
proof -
  have "set (existing_keys existing_data) = (\<lambda>p. (event_name p, start_date p)) ` set existing_data"
    using assms by (auto simp: existing_keys_def)
  then show ?thesis by (simp add: detect_new_data_def)
qed

text \<open>
  C1, as stated, fails: a persisted row whose start date is the empty string has the
  same \<open>(title, date)\<close> pair as a fresh record without a date, and the fresh record is
  still returned as new, because the detector leaves rows with an empty name or start
  date out of its key set.
\<close>

theorem detect_new_data_empty_date_counterexample:
  "(event_name ex_stored_undated, start_date ex_stored_undated)
     = (CStr (get_str (title ex_fresh_undated)), CStr (get_str (date ex_fresh_undated)))
   \<and> detect_new_data [ex_fresh_undated] [ex_stored_undated] = [ex_fresh_undated]"
  by (simp add: detect_new_data_def existing_keys_def ex_fresh_undated_def
        ex_stored_undated_def)

text \<open>
  C1 (amended): the detector returns, in input order, exactly the fresh records whose
  \<open>(title, date)\<close> pair is not the \<open>(name, start date)\<close> pair of a persisted row in
  which both of these are non-empty; a fresh record that has the pair of such a row is
  never returned; and an empty fresh list gives an empty result whatever the store holds.
\<close>

theorem detect_new_data_spec:
  "detect_new_data new_data existing_data =
     filter (\<lambda>item. \<not> (\<exists>p \<in> set existing_data.
                truthy_cell (event_name p) \<and> truthy_cell (start_date p)
                \<and> event_name p = CStr (get_str (title item))
                \<and> start_date p = CStr (get_str (date item)))) new_data
   \<and> (\<forall>p \<in> set existing_data. \<forall>item.
          truthy_cell (event_name p) \<and> truthy_cell (start_date p)
          \<and> event_name p = CStr (get_str (title item))
          \<and> start_date p = CStr (get_str (date item))
          \<longrightarrow> item \<notin> set (detect_new_data new_data existing_data))
   \<and> detect_new_data [] existing_data = []"
proof -
  have eq: "detect_new_data new_data existing_data =
     filter (\<lambda>item. \<not> (\<exists>p \<in> set existing_data.
                truthy_cell (event_name p) \<and> truthy_cell (start_date p)
                \<and> event_name p = CStr (get_str (title item))
                \<and> start_date p = CStr (get_str (date item)))) new_data"
    unfolding detect_new_data_def in_existing_keys by simp
  have blocked: "\<forall>p \<in> set existing_data. \<forall>item.
          truthy_cell (event_name p) \<and> truthy_cell (start_date p)
          \<and> event_name p = CStr (get_str (title item))
          \<and> start_date p = CStr (get_str (date item))
          \<longrightarrow> item \<notin> set (detect_new_data new_data existing_data)"
    unfolding eq by auto
  have "detect_new_data [] existing_data = []"
    by (simp add: detect_new_data_def)
  with eq blocked show ?thesis by blast
qed

theorem detect_new_data_spec_witness:
  "detect_new_data [ex_fresh_a, ex_fresh_b] [ex_stored_a] = [ex_fresh_b]"
proof -
  have "detect_new_data [ex_fresh_a, ex_fresh_b] [ex_stored_a] =
     filter (\<lambda>item. \<not> (\<exists>p \<in> set [ex_stored_a].
                truthy_cell (event_name p) \<and> truthy_cell (start_date p)
                \<and> event_name p = CStr (get_str (title item))
                \<and> start_date p = CStr (get_str (date item)))) [ex_fresh_a, ex_fresh_b]"
    using detect_new_data_spec [of "[ex_fresh_a, ex_fresh_b]" "[ex_stored_a]"] by blast
  then show ?thesis
    by (simp add: ex_fresh_a_def ex_fresh_b_def ex_stored_a_def py_def)
qed

section \<open>The aggregation pass\<close>

lemma dedup_loop_acc:
  "dedup_loop xs sn sh acc = acc @ dedup_loop xs sn sh []"
proof (induction xs arbitrary: sn sh acc)
  case Nil
  show ?case by simp
next
  case (Cons x xs)
  show ?case
    using Cons.IH [of "insert (nid x) sn" "insert (hash x) sh" "acc @ [x]"]
          Cons.IH [of "insert (nid x) sn" "insert (hash x) sh" "[x]"]
          Cons.IH [of sn sh acc]
    by (simp add: Let_def)
qed

lemma dedup_loop_append:
  "dedup_loop (ys @ zs) sn sh acc =
     dedup_loop zs (sn \<union> nid ` set (dedup_loop ys sn sh []))
       (sh \<union> hash ` set (dedup_loop ys sn sh [])) (acc @ dedup_loop ys sn sh [])"
proof (induction ys arbitrary: sn sh acc)
  case Nil
  show ?case by simp
next
  case (Cons y ys)
  show ?case
  proof (cases "truthy (py_or (nid y) (hash y)) \<and> py_or (nid y) (hash y) \<notin> sn
                  \<and> py_or (nid y) (hash y) \<notin> sh")
    case True
    have k: "dedup_loop (y # ys) sn sh [] =
               y # dedup_loop ys (insert (nid y) sn) (insert (hash y) sh) []"
      using True dedup_loop_acc [of ys "insert (nid y) sn" "insert (hash y) sh" "[y]"]
      by (simp add: Let_def)
    show ?thesis
      using True Cons.IH [of "insert (nid y) sn" "insert (hash y) sh" "acc @ [y]"]
      unfolding k by (simp add: Let_def Un_insert_left)
  next
    case False
    then show ?thesis using Cons.IH [of sn sh acc] by (auto simp: Let_def)
  qed
qed

lemma deduplicate_data_snoc:
  "deduplicate_data (ys @ [x]) =
     deduplicate_data ys @
       (if truthy (py_or (nid x) (hash x))
           \<and> py_or (nid x) (hash x) \<notin> nid ` set (deduplicate_data ys)
           \<and> py_or (nid x) (hash x) \<notin> hash ` set (deduplicate_data ys)
        then [x] else [])"
  unfolding deduplicate_data_def dedup_loop_append [of ys "[x]" "{}" "{}" "[]"]
  by (simp add: Let_def)

lemma deduplicate_data_Nil: "deduplicate_data [] = []"
  by (simp add: deduplicate_data_def)

lemma deduplicate_data_subseq: "subseq (deduplicate_data xs) xs"
proof (induction xs rule: rev_induct)
  case Nil
  show ?case by (simp add: deduplicate_data_Nil)
next
  case (snoc x xs)
  then show ?case
    by (auto simp: deduplicate_data_snoc intro: subseq_rev_drop_many list_emb_append_mono)
qed

lemma deduplicate_data_truthy:
  "r \<in> set (deduplicate_data xs) \<Longrightarrow> truthy (py_or (nid r) (hash r))"
  by (induction xs rule: rev_induct)
     (auto simp: deduplicate_data_snoc deduplicate_data_Nil split: if_splits)

lemma deduplicate_data_nid_le1:
  "truthy n \<Longrightarrow> length (filter (\<lambda>r. nid r = n) (deduplicate_data xs)) \<le> 1"
proof (induction xs rule: rev_induct)
  case Nil
  show ?case by (simp add: deduplicate_data_Nil)
next
  case (snoc x xs)
  show ?case
  proof (cases "nid x = n")
    case True
    then have "py_or (nid x) (hash x) = n" using snoc.prems by (simp add: py_or_def)
    then have id: "py_or (nid x) (hash x) = nid x" using True by simp
    have ih: "length (filter (\<lambda>r. nid r = n) (deduplicate_data xs)) \<le> 1"
      using snoc by simp
    have "n \<notin> nid ` set (deduplicate_data xs) \<Longrightarrow>
            filter (\<lambda>r. nid r = n) (deduplicate_data xs) = []"
      by (auto simp: filter_empty_conv)
    then show ?thesis using ih True id
      by (simp add: deduplicate_data_snoc)
  next
    case False
    then show ?thesis using snoc by (simp add: deduplicate_data_snoc)
  qed
qed

lemma deduplicate_data_nid_kept:
  "truthy n \<Longrightarrow> n \<notin> hash ` set xs \<Longrightarrow>
     (n \<in> nid ` set (deduplicate_data xs) \<longleftrightarrow> n \<in> nid ` set xs)"
proof (induction xs rule: rev_induct)
  case Nil
  show ?case by (simp add: deduplicate_data_Nil)
next
  case (snoc x xs)
  have sub: "set (deduplicate_data xs) \<subseteq> set xs"
    using deduplicate_data_subseq [of xs] by (auto dest: list_emb_set)
  have ih: "n \<in> nid ` set (deduplicate_data xs) \<longleftrightarrow> n \<in> nid ` set xs"
    using snoc by simp
  show ?case
  proof (cases "nid x = n")
    case True
    then have "py_or (nid x) (hash x) = n" using snoc.prems by (simp add: py_or_def)
    moreover have "n \<notin> hash ` set (deduplicate_data xs)"
      using sub snoc.prems(2) by auto
    ultimately show ?thesis using True snoc.prems ih
      by (auto simp: deduplicate_data_snoc)
  next
    case False
    then show ?thesis using ih by (auto simp: deduplicate_data_snoc)
  qed
qed

text \<open>
  C4, as stated, fails: a record is compared through one identifier only (its nid, or
  its hash when it has no nid), so a later record that shares the hash of a kept record
  but has a nid of its own is kept as well.
\<close>

theorem deduplicate_data_shared_hash_counterexample:
  "hash ex_nid_b_hash_h = hash ex_nid_a_hash_h
   \<and> deduplicate_data [ex_nid_a_hash_h, ex_nid_b_hash_h]
       = [ex_nid_a_hash_h, ex_nid_b_hash_h]"
  by (simp add: deduplicate_data_def ex_nid_a_hash_h_def ex_nid_b_hash_h_def py_def
        py_or_def)

text \<open>
  C4 (amended). The identifier of a record is its nid when that is non-empty, else its
  hash. Going through the input in order, a record is kept exactly when its identifier
  is non-empty and is neither the nid nor the hash of a record kept before it; the
  output is a subsequence of the input (order of first occurrence); a record with
  neither a nid nor a hash is never kept; of the records carrying one non-empty nid at
  most one is kept, and exactly one when that value is the hash of no input record.
\<close>

theorem deduplicate_data_spec:
  "deduplicate_data (ys @ [x]) =
     deduplicate_data ys @
       (if truthy (py_or (nid x) (hash x))
           \<and> py_or (nid x) (hash x) \<notin> nid ` set (deduplicate_data ys)
           \<and> py_or (nid x) (hash x) \<notin> hash ` set (deduplicate_data ys)
        then [x] else [])
   \<and> deduplicate_data [] = []
   \<and> subseq (deduplicate_data xs) xs
   \<and> (\<forall>r \<in> set xs. \<not> truthy (nid r) \<and> \<not> truthy (hash r)
          \<longrightarrow> r \<notin> set (deduplicate_data xs))
   \<and> (truthy n \<longrightarrow> length (filter (\<lambda>r. nid r = n) (deduplicate_data xs)) \<le> 1)
   \<and> (truthy n \<and> n \<in> nid ` set xs \<and> n \<notin> hash ` set xs
          \<longrightarrow> length (filter (\<lambda>r. nid r = n) (deduplicate_data xs)) = 1)"
proof -
  have none: "\<forall>r \<in> set xs. \<not> truthy (nid r) \<and> \<not> truthy (hash r)
          \<longrightarrow> r \<notin> set (deduplicate_data xs)"
  proof (intro ballI impI notI)
    fix r assume "\<not> truthy (nid r) \<and> \<not> truthy (hash r)" "r \<in> set (deduplicate_data xs)"
    then show False using deduplicate_data_truthy [of r xs] by (simp add: py_or_def)
  qed
  have one: "length (filter (\<lambda>r. nid r = n) (deduplicate_data xs)) = 1"
    if "truthy n" "n \<in> nid ` set xs" "n \<notin> hash ` set xs"
  proof -
    have "n \<in> nid ` set (deduplicate_data xs)"
      using that deduplicate_data_nid_kept [of n xs] by simp
    then have "filter (\<lambda>r. nid r = n) (deduplicate_data xs) \<noteq> []"
      by (auto simp: filter_empty_conv)
    then have "0 < length (filter (\<lambda>r. nid r = n) (deduplicate_data xs))"
      by simp
    with deduplicate_data_nid_le1 [OF that(1), of xs] show ?thesis by linarith
  qed
  show ?thesis
    using deduplicate_data_snoc [of ys x] deduplicate_data_Nil
      deduplicate_data_subseq [of xs] none deduplicate_data_nid_le1 [of n xs] one
    by blast
qed

theorem deduplicate_data_spec_witness:
  "truthy (Some (py ''A''))
   \<and> Some (py ''A'') \<in> nid ` set [ex_nid_a_hash_h, ex_nid_a_again]
   \<and> Some (py ''A'') \<notin> hash ` set [ex_nid_a_hash_h, ex_nid_a_again]
   \<and> length (filter (\<lambda>r. nid r = Some (py ''A''))
         (deduplicate_data [ex_nid_a_hash_h, ex_nid_a_again])) = 1"
proof -
  have h: "truthy (Some (py ''A''))
     \<and> Some (py ''A'') \<in> nid ` set [ex_nid_a_hash_h, ex_nid_a_again]
     \<and> Some (py ''A'') \<notin> hash ` set [ex_nid_a_hash_h, ex_nid_a_again]"
    by (simp add: ex_nid_a_hash_h_def ex_nid_a_again_def py_def)
  with deduplicate_data_spec [of _ _ "[ex_nid_a_hash_h, ex_nid_a_again]" "Some (py ''A'')"]
  show ?thesis by blast
qed

section \<open>The page-URL generator\<close>

lemma generate_page_urls_param_free:
  "generate_page_urls u q n info cfg = generate_page_urls u q n [] None"
  by (cases "first_value q (py ''spid'')") (simp_all add: generate_page_urls_def Let_def)

lemma generate_page_urls_spec_example:
  "generate_page_urls ex_site_url ex_site_query 3 [] None
     = Inr [py ''https://site/x.aspx?spid=XYZ'', py ''https://site/x.aspx?pg=2&spid=XYZ'',
            py ''https://site/x.aspx?pg=3&spid=XYZ'']"
  by code_simp

text \<open>
  C3: the code at the failing input. For \<open>https://site/x.aspx?spid=XYZ\<close>, two pages and
  the caller override \<open>page_param = "page"\<close>, the parameter name chosen is \<open>page\<close>, yet
  the second URL carries \<open>pg=2\<close>, not \<open>page=2\<close>.
\<close>

theorem generate_page_urls_ignores_page_param:
  "page_param_of (Some ex_page_config) [] = py ''page''
   \<and> generate_page_urls ex_site_url ex_site_query 2 [] (Some ex_page_config)
       = Inr [py ''https://site/x.aspx?spid=XYZ'', py ''https://site/x.aspx?pg=2&spid=XYZ'']"
  by code_simp

section \<open>Table rows\<close>

lemmas text_defs = py_def strip_def is_space_def is_digit_def decimal_value_def
  decimal_zeros_def is_ascii_digit_def starts_with_def is_upper_hex_def nid_at_def date_at_def

lemmas dom_defs = find_all_def find_first_def find_hidden_span_def has_hidden_class_def
  get_text_def get_text_strip_def all_strings_def interesting_strings_def string_containers_def
  hidden_span_date_def second_cell_date_def no_fields_def

lemma extract_table_row_title:
  "extract_table_row row = Some r \<Longrightarrow> truthy (title r)"
  by (auto simp: extract_table_row_def Let_def split: list.splits if_splits)

lemma extract_table_row_no_hash:
  "extract_table_row row = Some r \<Longrightarrow> hash r = None"
  by (auto simp: extract_table_row_def Let_def no_fields_def
           split: list.splits if_splits option.splits)

text \<open>
  The date pattern accepts the decimal digits of every script: a second cell that writes
  its date in full-width digits overwrites the date of the hidden span, and a date with
  superscript digits, which are no decimal digits, is none.
\<close>

lemma extract_table_row_fullwidth_date:
  "extract_table_row ex_row_fullwidth_date
     = Some \<lparr>title = Some (py ''Event X''), link = Some (py ''detail.aspx?nid=AB12''),
             date = Some ex_fullwidth_date, nid = Some (py ''AB12''), hash = None\<rparr>
   \<and> date_at [178, 48, 178, 52, 45, 48, 53, 45, 48, 49] = None
   \<and> nid_at (py ''nid='' @ [65297]) = None"
  by (simp add: extract_table_row_def ex_row_fullwidth_date_def ex_fullwidth_date_def
        ex_cell_span_def ex_link_def dom_defs text_defs Let_def)




text \<open>
  C5: the code at the failing input. The row
  \<open><tr><td><a href="detail.aspx?no=7">Event Y</a></td><td>2024-05-02</td></tr>\<close> is
  extracted to a record with a title, without nid and without hash, and the aggregation
  pass drops that record on its first and only occurrence.
\<close>

theorem extraction_attaches_no_hash:
  "extract_table_row ex_row_no_nid = Some ex_record_no_nid
   \<and> nid ex_record_no_nid = None \<and> hash ex_record_no_nid = None
   \<and> truthy (title ex_record_no_nid)
   \<and> deduplicate_data [ex_record_no_nid] = []"
  by (simp add: extract_table_row_def ex_row_no_nid_def ex_record_no_nid_def dom_defs
        text_defs Let_def deduplicate_data_def py_or_def)

section \<open>Extraction output\<close>

lemma strip_nonspace_head:
  assumes "s \<noteq> []" "\<not> is_space (hd s)"
  shows "strip s \<noteq> []"
proof -
  from assms obtain x xs where s: "s = x # xs" and x: "\<not> is_space x"
    by (cases s) auto
  have d1: "dropWhile is_space s = s" using s x by simp
  have "\<not> (\<forall>y \<in> set (rev s). is_space y)" using s x by auto
  then have d2: "dropWhile is_space (rev s) \<noteq> []"
    by (simp only: dropWhile_eq_Nil_conv not_False_eq_True)
  show ?thesis unfolding strip_def d1 using d2 by simp
qed

lemma strip_head:
  assumes "strip s \<noteq> []"
  shows "\<not> is_space (hd (strip s))"
proof -
  let ?t = "dropWhile is_space s"
  have t: "?t \<noteq> []"
    using assms by (cases "dropWhile is_space s = []") (simp_all add: strip_def)
  have "rev ?t = takeWhile is_space (rev ?t) @ dropWhile is_space (rev ?t)" by simp
  then have "?t = rev (dropWhile is_space (rev ?t)) @ rev (takeWhile is_space (rev ?t))"
    by (metis rev_append rev_rev_ident)
  then have "?t = strip s @ rev (takeWhile is_space (rev ?t))"
    by (simp add: strip_def)
  then have "hd ?t = hd (strip s)" using assms by (metis hd_append2)
  moreover have "\<not> is_space (hd ?t)" using t by (rule hd_dropWhile)
  ultimately show ?thesis by simp
qed

lemma concat_head:
  assumes "\<forall>x \<in> set xss. x \<noteq> [] \<and> Q (hd x)" "concat xss \<noteq> []"
  shows "Q (hd (concat xss))"
  using assms by (induction xss) auto

lemma get_text_strip_head:
  assumes "get_text_strip e \<noteq> []"
  shows "\<not> is_space (hd (get_text_strip e))"
proof -
  let ?xss = "[strip s. s \<leftarrow> all_strings e, strip s \<noteq> []]"
  have "\<forall>x \<in> set ?xss. x \<noteq> [] \<and> \<not> is_space (hd x)"
    by (auto simp: strip_head)
  moreover have "concat ?xss \<noteq> []" using assms by (simp add: get_text_strip_def)
  ultimately have "\<not> is_space (hd (concat ?xss))"
    by (rule concat_head [where Q = "\<lambda>c. \<not> is_space c"])
  then show ?thesis by (simp add: get_text_strip_def)
qed

lemma good_text: "get_text_strip e \<noteq> [] \<Longrightarrow> strip (get_text_strip e) \<noteq> []"
  by (simp add: strip_nonspace_head get_text_strip_head)

lemma good_text_take:
  assumes "get_text_strip e \<noteq> []"
  shows "strip (take 100 (get_text_strip e)) \<noteq> []"
proof -
  obtain x xs where s: "get_text_strip e = x # xs" using assms by (cases "get_text_strip e") auto
  then have "\<not> is_space x" using get_text_strip_head [OF assms] by simp
  then show ?thesis using s by (intro strip_nonspace_head) auto
qed

lemma extract_table_row_good_title:
  assumes "extract_table_row row = Some r"
  shows "\<exists>t. title r = Some t \<and> strip t \<noteq> []"
  using assms
  by (auto simp: extract_table_row_def Let_def no_fields_def good_text
           split: list.splits if_splits option.splits)

lemma extract_general_row_good_title:
  assumes "extract_general_row c det = Some r"
  shows "\<exists>t. title r = Some t \<and> strip t \<noteq> []"
proof -
  define row1 where "row1 =
            (case title_sel det of
               None \<Rightarrow> no_fields
             | Some Whole \<Rightarrow> no_fields\<lparr>title := Some (take 100 (get_text_strip c))\<rparr>
             | Some (Sel selector) \<Rightarrow>
                 (case select selector c of
                    [] \<Rightarrow> no_fields
                  | element # _ \<Rightarrow> no_fields\<lparr>title := Some (get_text_strip element)\<rparr>))"
  have g1: "truthy (title row1) \<longrightarrow> (\<exists>t. title row1 = Some t \<and> strip t \<noteq> [])"
    unfolding row1_def
    by (auto simp: no_fields_def good_text good_text_take
             split: option.splits sel.splits list.splits)
  define row2 where "row2 =
            (case link_sel det of
               None \<Rightarrow> row1
             | Some selector \<Rightarrow>
                 (case select selector c of
                    [] \<Rightarrow> row1
                  | element # _ \<Rightarrow>
                      let href = get_str (attr element (py ''href'')) in
                      (case re_search id_or_nid_at href of
                         None \<Rightarrow> row1\<lparr>link := Some href\<rparr>
                       | Some g \<Rightarrow> row1\<lparr>link := Some href, nid := g\<rparr>)))"
  have t2: "title row2 = title row1"
    unfolding row2_def by (auto simp: Let_def split: option.splits list.splits)
  define row3 where "row3 =
            (case date_sel det of
               None \<Rightarrow> row2
             | Some selector \<Rightarrow>
                 (case select selector c of
                    [] \<Rightarrow> row2
                  | element # _ \<Rightarrow>
                      (case re_search date_at (strip (get_text_strip element)) of
                         None \<Rightarrow> row2
                       | Some d \<Rightarrow> row2\<lparr>date := Some d\<rparr>)))"
  have t3: "title row3 = title row1"
    unfolding row3_def using t2 by (auto split: option.splits list.splits)
  define row4 where "row4 =
            (if \<not> any_values row3
             then (let content = get_text_strip c in
                   if content \<noteq> [] then row3\<lparr>title := Some (take 100 content)\<rparr> else row3)
             else row3)"
  have g4: "truthy (title row4) \<longrightarrow> (\<exists>t. title row4 = Some t \<and> strip t \<noteq> [])"
    unfolding row4_def using g1 t3 by (auto simp: Let_def good_text_take)
  have "extract_general_row c det = (if truthy (title row4) then Some row4 else None)"
    unfolding extract_general_row_def row4_def row3_def row2_def row1_def Let_def ..
  with assms g4 show ?thesis by (auto split: if_splits)
qed

lemma parse_rows_acc:
  "parse_rows ex cs acc = acc @ parse_rows ex cs []"
proof (induction cs arbitrary: acc)
  case Nil
  show ?case by simp
next
  case (Cons c cs)
  show ?case
    using Cons.IH [of "acc @ [r]" for r] Cons.IH [of "[r]" for r] Cons.IH [of acc]
    by (auto split: sum.splits option.splits)
qed

lemma parse_rows_append:
  "parse_rows ex (cs @ ds) [] = parse_rows ex cs [] @ parse_rows ex ds []"
proof (induction cs)
  case Nil
  show ?case by simp
next
  case (Cons c cs)
  show ?case
    using Cons parse_rows_acc [of ex "cs @ ds" "[r]" for r] parse_rows_acc [of ex cs "[r]" for r]
    by (auto split: sum.splits option.splits)
qed

lemma parse_rows_sound:
  "r \<in> set (parse_rows ex cs []) \<Longrightarrow> \<exists>c \<in> set cs. ex c = Inr (Some r)"
proof (induction cs)
  case Nil
  then show ?case by simp
next
  case (Cons c cs)
  then show ?case
    using parse_rows_acc [of ex cs "[r']" for r']
    by (auto split: sum.splits option.splits if_splits)
qed

lemma parse_table_mode_good:
  "r \<in> set (parse_table_mode cs) \<Longrightarrow> \<exists>t. title r = Some t \<and> strip t \<noteq> []"
  unfolding parse_table_mode_def
  by (drule parse_rows_sound) (auto split: if_splits dest: extract_table_row_good_title)

lemma parse_general_mode_good:
  "r \<in> set (parse_general_mode cs) \<Longrightarrow> \<exists>t. title r = Some t \<and> strip t \<noteq> []"
proof (cases cs)
  case Nil
  assume "r \<in> set (parse_general_mode cs)"
  with Nil show ?thesis by (simp add: parse_general_mode_def)
next
  case (Cons c rest)
  assume "r \<in> set (parse_general_mode cs)"
  then have "r \<in> set (parse_rows
       (\<lambda>container. Inr (extract_general_row container (auto_detect_fields c))) cs [])"
    unfolding parse_general_mode_def Cons by (simp only: list.case Let_def)
  then obtain d where "extract_general_row d (auto_detect_fields c) = Some r"
    by (auto dest!: parse_rows_sound)
  then show ?thesis by (rule extract_general_row_good_title)
qed

lemma slice_to_subset: "set (slice_to n xs) \<subseteq> set xs"
  by (auto simp: slice_to_def dest: in_set_takeD)

lemma validate_data_subset: "set (validate_data xs) \<subseteq> set xs"
  by (auto simp: validate_data_def)

lemma parse_good:
  assumes "parse css_select max_items soup selector table_mode = Inr out" "r \<in> set out"
  shows "\<exists>t. title r = Some t \<and> strip t \<noteq> []"
proof -
  from assms obtain cs where
    "r \<in> set (parse_table_mode cs) \<or> r \<in> set (parse_general_mode cs)"
    using slice_to_subset validate_data_subset
    by (fastforce simp: parse_def Let_def split: option.splits sum.splits if_splits)
  then show ?thesis using parse_table_mode_good parse_general_mode_good by blast
qed


lemma parse_rows_skip:
  assumes "extract c = Inl e"
  shows "parse_rows extract (before @ c # after) [] = parse_rows extract (before @ after) []"
proof -
  have "parse_rows extract (c # after) [] = parse_rows extract after []"
    using assms by simp
  then show ?thesis by (simp add: parse_rows_append del: parse_rows.simps)
qed

lemma validate_data_iff:
  "r \<in> set (validate_data xs) \<longleftrightarrow> r \<in> set xs \<and> truthy (title r)"
  by (auto simp: validate_data_def)

lemmas parse_defs = parse_table_mode_def validate_data_def is_table_mode_def lower_def
  slice_to_def any_values_def extract_table_row_def

lemma ex_css_select_rows:
  "ex_css_select (py ''tr'') ex_page = Inr [ex_row_spec, ex_row_no_nid]"
  by (simp add: ex_css_select_def ex_page_def ex_row_spec_def ex_row_no_nid_def find_all_def
        py_def)

lemma ex_rows_extracted:
  "extract_table_row ex_row_spec = Some ex_record_spec
   \<and> extract_table_row ex_row_no_nid = Some ex_record_no_nid"
  by (simp add: extract_table_row_def ex_row_spec_def ex_row_no_nid_def ex_record_spec_def
        ex_record_no_nid_def dom_defs text_defs Let_def)

lemma ex_rows_parsed:
  "parse_table_mode [ex_row_spec, ex_row_no_nid] = [ex_record_spec, ex_record_no_nid]"
proof -
  have "name_of ex_row_spec = Some (py ''tr'') \<and> name_of ex_row_no_nid = Some (py ''tr'')"
    by (simp add: ex_row_spec_def ex_row_no_nid_def)
  moreover have "any_values ex_record_spec \<and> any_values ex_record_no_nid"
    by (simp add: any_values_def ex_record_spec_def ex_record_no_nid_def py_def)
  ultimately show ?thesis
    using ex_rows_extracted by (simp add: parse_table_mode_def)
qed

text \<open>
  C7: every record that \<open>parse\<close> returns has a title that is not empty after trimming;
  for a maximum item count that is not negative, what \<open>parse\<close> returns is the first
  \<open>max_items\<close> records of the validated list, in their order; and the validated list is
  the sublist of the extracted records that have a non-empty title.
\<close>

theorem parse_output_valid_and_truncated:
  "(parse css_select max_items soup selector table_mode = Inr out
      \<longrightarrow> (\<forall>r \<in> set out. \<exists>t. title r = Some t \<and> strip t \<noteq> []))
   \<and> (css_select selector page = Inr containers \<and> containers \<noteq> [] \<and> 0 \<le> max_items
      \<longrightarrow> parse css_select max_items (Some page) selector table_mode
            = Inr (take (nat max_items)
                    (validate_data
                      (if table_mode = Some True \<or> is_table_mode selector
                       then parse_table_mode containers
                       else parse_general_mode containers))))
   \<and> subseq (validate_data data_list) data_list
   \<and> (\<forall>r. r \<in> set (validate_data data_list) \<longleftrightarrow> r \<in> set data_list \<and> truthy (title r))"
proof (intro conjI impI allI)
  assume "parse css_select max_items soup selector table_mode = Inr out"
  then show "\<forall>r \<in> set out. \<exists>t. title r = Some t \<and> strip t \<noteq> []"
    using parse_good by blast
next
  assume "css_select selector page = Inr containers \<and> containers \<noteq> [] \<and> 0 \<le> max_items"
  then show "parse css_select max_items (Some page) selector table_mode
            = Inr (take (nat max_items)
                    (validate_data
                      (if table_mode = Some True \<or> is_table_mode selector
                       then parse_table_mode containers
                       else parse_general_mode containers)))"
    by (simp add: parse_def slice_to_def Let_def)
next
  show "subseq (validate_data data_list) data_list"
    by (simp add: validate_data_def)
next
  fix r
  show "r \<in> set (validate_data data_list) \<longleftrightarrow> r \<in> set data_list \<and> truthy (title r)"
    by (rule validate_data_iff)
qed

theorem parse_output_valid_and_truncated_witness:
  "ex_css_select (py ''tr'') ex_page = Inr [ex_row_spec, ex_row_no_nid]
   \<and> [ex_row_spec, ex_row_no_nid] \<noteq> [] \<and> (0::int) \<le> 1
   \<and> parse ex_css_select 1 (Some ex_page) (py ''tr'') None = Inr [ex_record_spec]
   \<and> (\<exists>t. title ex_record_spec = Some t \<and> strip t \<noteq> [])"
proof -
  have h: "ex_css_select (py ''tr'') ex_page = Inr [ex_row_spec, ex_row_no_nid]
     \<and> [ex_row_spec, ex_row_no_nid] \<noteq> [] \<and> (0::int) \<le> 1"
    using ex_css_select_rows by simp
  have t: "is_table_mode (py ''tr'')"
    by (simp add: is_table_mode_def lower_def py_def starts_with_def)
  have v: "take (nat 1) (validate_data [ex_record_spec, ex_record_no_nid]) = [ex_record_spec]"
    by (simp add: validate_data_def ex_record_spec_def ex_record_no_nid_def py_def)
  note inst = parse_output_valid_and_truncated
    [of ex_css_select 1 "Some ex_page" "py ''tr''" None "[ex_record_spec]" ex_page
        "[ex_row_spec, ex_row_no_nid]"]
  have p: "parse ex_css_select 1 (Some ex_page) (py ''tr'') None = Inr [ex_record_spec]"
    using inst h t v ex_rows_parsed by simp
  with inst have "\<forall>r \<in> set [ex_record_spec]. \<exists>t. title r = Some t \<and> strip t \<noteq> []"
    by blast
  then have "\<exists>t. title ex_record_spec = Some t \<and> strip t \<noteq> []"
    by simp
  with h p show ?thesis by blast
qed

text \<open>
  C10, as stated, fails: \<open>parse\<close> calls \<open>soup.select\<close> outside every \<open>try\<close>, so a
  container selector that the selector library rejects makes \<open>parse\<close> raise.
\<close>

theorem parse_raises_counterexample:
  "parse ex_css_select 100 (Some ex_page) (py ''div['') None = Inl SelectorSyntaxError"
  by (simp add: parse_def ex_css_select_def py_def)

text \<open>
  C10 (amended): \<open>parse\<close> returns a list whenever the selector library accepts the
  container selector, and raises the library's error otherwise: a \<open>None\<close> soup yields
  \<open>[]\<close>; a selector matching no elements yields \<open>[]\<close>; a selector that is accepted
  yields some list; and in the loop over the containers a container whose extraction
  raises is skipped, the result being that of the same loop without this container.
\<close>

theorem parse_total_when_selector_accepted:
  "parse css_select max_items None selector table_mode = Inr []
   \<and> (css_select selector page = Inr []
        \<longrightarrow> parse css_select max_items (Some page) selector table_mode = Inr [])
   \<and> (css_select selector page = Inr containers
        \<longrightarrow> (\<exists>out. parse css_select max_items (Some page) selector table_mode = Inr out))
   \<and> (css_select selector page = Inl e
        \<longrightarrow> parse css_select max_items (Some page) selector table_mode = Inl e)
   \<and> (extract c = Inl e'
        \<longrightarrow> parse_rows extract (before @ c # after) []
              = parse_rows extract (before @ after) [])"
  using parse_rows_skip [of "extract" c "e'" before after]
  by (simp add: parse_def Let_def)

theorem parse_total_when_selector_accepted_witness:
  "parse ex_css_select 100 None (py ''tr'') None = Inr []
   \<and> ex_css_select (py ''div'') ex_page = Inr []
   \<and> parse ex_css_select 100 (Some ex_page) (py ''div'') None = Inr []
   \<and> ex_css_select (py ''tr'') ex_page = Inr [ex_row_spec, ex_row_no_nid]
   \<and> (\<exists>out. parse ex_css_select 100 (Some ex_page) (py ''tr'') None = Inr out)
   \<and> ex_extract (Elem (py ''p'') [] []) = Inl TypeError
   \<and> parse_rows ex_extract ([ex_row_spec] @ Elem (py ''p'') [] [] # [ex_row_no_nid]) []
       = parse_rows ex_extract ([ex_row_spec] @ [ex_row_no_nid]) []"
proof -
  have h1: "ex_css_select (py ''div'') ex_page = Inr []"
    by (simp add: ex_css_select_def py_def)
  have h2: "ex_extract (Elem (py ''p'') [] []) = Inl TypeError"
    by (simp add: ex_extract_def)
  show ?thesis
    using h1 h2 ex_css_select_rows
      parse_total_when_selector_accepted
        [of ex_css_select 100 "py ''tr''" None ex_page]
      parse_total_when_selector_accepted
        [of ex_css_select 100 "py ''div''" None ex_page "[]" _ ex_extract
            "Elem (py ''p'') [] []" TypeError "[ex_row_spec]" "[ex_row_no_nid]"]
    by blast
qed


section \<open>Pagination detection\<close>

lemmas page_defs = links_with_href_def links_with_string_def last_pattern_def next_pattern_def
  ends_with_digits_def link_numbers_def container_numbers_def last_link_texts_def
  page_number_at_def total_at_def int_of_digits_def isdigit_def isdigit_char_def
  other_digit_ranges_def py_int_def int_accepts_def int_max_str_digits_def
  find_og_url_def find_canonical_def get_base_url_def split_ws_def
  select_one_def select_def common_selectors_def

lemma foldl_max_Max:
  fixes a :: int
  shows "foldl max a xs = Max (insert a (set xs))"
proof (induction xs arbitrary: a)
  case Nil
  show ?case by simp
next
  case (Cons x xs)
  have "Max (insert (max a x) (set xs)) = Max (insert a (insert x (set xs)))"
  proof (cases "set xs = {}")
    case True
    then show ?thesis by (simp add: max.commute)
  next
    case False
    then show ?thesis by (simp add: max.assoc)
  qed
  then show ?case using Cons [of "max a x"] by simp
qed

lemma max_pages_accepts:
  assumes "list_all int_accepts texts"
  shows "max_pages texts m = Inr (foldl max m (map int_of_digits texts))"
  using assms by (induction texts arbitrary: m) (simp_all add: py_int_def)

lemma max_pages_raises:
  assumes "\<not> list_all int_accepts texts"
  shows "max_pages texts m = Inl ValueError"
  using assms
proof (induction texts arbitrary: m)
  case Nil
  then show ?case by simp
next
  case (Cons t texts)
  show ?case
  proof (cases "int_accepts t")
    case False
    then show ?thesis by (simp add: py_int_def)
  next
    case True
    with Cons.prems have "\<not> list_all int_accepts texts" by simp
    then have "max_pages texts (max m (int_of_digits t)) = Inl ValueError" by (rule Cons.IH)
    with True show ?thesis by (simp add: py_int_def)
  qed
qed

lemma int_of_digits_nonneg_aux:
  "0 \<le> a \<Longrightarrow>
   0 \<le> foldl (\<lambda>a c. 10 * a + (case decimal_value c of Some v \<Rightarrow> int v | None \<Rightarrow> 0)) a s"
  by (induction s arbitrary: a) (auto split: option.splits)

lemma int_of_digits_nonneg: "0 \<le> int_of_digits s"
  unfolding int_of_digits_def by (rule int_of_digits_nonneg_aux) simp

lemma max_pages_mono: "max_pages texts m = Inr n \<Longrightarrow> m \<le> n"
proof (induction texts arbitrary: m)
  case Nil
  then show ?case by simp
next
  case (Cons t texts)
  from Cons.prems obtain k where "py_int t = Inr k" "max_pages texts (max m k) = Inr n"
    by (auto split: sum.splits)
  then have "max m k \<le> n" using Cons.IH by blast
  then show ?case by simp
qed

text \<open>
  The numerals of the first two signals are matches of \<open>\d+\<close>: \<open>int\<close> accepts such a
  numeral unless it is longer than the limit.
\<close>

lemma re_findall_witness:
  "x \<in> set (re_findall m k s) \<Longrightarrow> \<exists>t len. m t = Some (len, x)"
  by (induction m k s rule: re_findall.induct) (auto split: if_splits option.splits)

lemma page_number_at_digits:
  "page_number_at t = Some (len, digits) \<Longrightarrow> digits \<noteq> [] \<and> list_all is_digit digits"
  by (auto simp: page_number_at_def Let_def list_all_iff split: if_splits dest: set_takeWhileD)

lemma total_at_digits:
  "total_at t = Some (len, groups) \<Longrightarrow> \<forall>g \<in> set groups. g \<noteq> [] \<and> list_all is_digit g"
  by (auto simp: total_at_def Let_def list_all_iff split: if_splits dest: set_takeWhileD)

lemma link_numbers_digits:
  assumes "num \<in> set (link_numbers soup)"
  shows "int_accepts num \<longleftrightarrow> length num \<le> int_max_str_digits"
proof -
  from assms obtain t len where "page_number_at t = Some (len, num)"
    by (auto simp: link_numbers_def dest: re_findall_witness)
  then have "num \<noteq> [] \<and> list_all is_digit num" by (rule page_number_at_digits)
  then show ?thesis by (simp add: int_accepts_def)
qed

lemma container_numbers_digits:
  assumes "num \<in> set (container_numbers pagination)"
  shows "int_accepts num \<longleftrightarrow> length num \<le> int_max_str_digits"
proof -
  from assms obtain t len groups where "total_at t = Some (len, groups)" "num \<in> set groups"
    by (auto simp: container_numbers_def split: option.splits dest: re_findall_witness)
  then have "num \<noteq> [] \<and> list_all is_digit num" using total_at_digits by blast
  then show ?thesis by (simp add: int_accepts_def)
qed

lemma last_link_texts_digits:
  assumes "num \<in> set (last_link_texts soup)"
  shows "int_accepts num \<longleftrightarrow> list_all is_digit num \<and> length num \<le> int_max_str_digits"
  using assms by (auto simp: last_link_texts_def isdigit_def int_accepts_def)

lemma extract_total_pages_floor:
  "extract_total_pages_from_pagination soup pagination = Inr n \<Longrightarrow> 1 \<le> n"
  by (auto simp: extract_total_pages_from_pagination_def Let_def split: sum.splits)

lemma re_search_witness: "re_search m s = Some x \<Longrightarrow> \<exists>t. m t = Some x"
  by (induction s) (auto split: option.splits)

lemma py_int_nonneg: "py_int s = Inr n \<Longrightarrow> 0 \<le> n"
  by (auto simp: py_int_def int_of_digits_nonneg split: if_splits)

lemma current_indicators_nonneg: "current_indicators sels soup = Inr n \<Longrightarrow> 0 \<le> n"
  by (induction sels) (auto simp: Let_def py_int_nonneg split: option.splits if_splits)

lemma extract_current_page_nonneg:
  assumes "extract_current_page soup = Inr n"
  shows "0 \<le> n"
proof -
  from assms obtain u where
    u: "(case re_search page_number_at u of
           Some (len, digits) \<Rightarrow> py_int digits
         | None \<Rightarrow>
             current_indicators
               [Class (py ''active''), Class (py ''current''),
                AttrEq (py ''aria-current'') (py ''page''), Class (py ''on'')] soup) = Inr n"
    unfolding extract_current_page_def Let_def
    by (auto split: sum.splits simp del: current_indicators.simps)
  show ?thesis
  proof (cases "re_search page_number_at u")
    case None
    with u show ?thesis by (auto dest: current_indicators_nonneg simp del: current_indicators.simps)
  next
    case (Some r)
    obtain len digits where r: "r = (len, digits)" by (cases r)
    from u Some r have "py_int digits = Inr n" by simp
    then show ?thesis by (rule py_int_nonneg)
  qed
qed

lemma detect_pagination_total:
  assumes "detect_pagination soup = Inr info"
  shows "extract_total_pages_from_pagination soup
           (map_option snd (first_container common_selectors soup)) = Inr (total_pages info)"
proof -
  from assms obtain n where
    n: "extract_total_pages_from_pagination soup
          (map_option snd (first_container common_selectors soup)) = Inr n"
    by (auto simp: detect_pagination_def Let_def split: sum.splits)
  then have "1 \<le> n" by (rule extract_total_pages_floor)
  with assms n have "total_pages info = n"
    by (auto simp: detect_pagination_def Let_def split: sum.splits if_splits)
  with n show ?thesis by simp
qed

text \<open>
  C9: whenever pagination detection returns a result, its total page count and its
  current page are at least 1; a current page read as 0 is not stored.
\<close>

theorem detect_pagination_floor:
  "detect_pagination soup = Inr info \<longrightarrow> 1 \<le> total_pages info \<and> 1 \<le> current_page info"
proof
  assume a: "detect_pagination soup = Inr info"
  have t: "1 \<le> total_pages info"
    using detect_pagination_total [OF a] by (rule extract_total_pages_floor)
  from a obtain c where c: "extract_current_page soup = Inr c"
    and cp: "current_page info = (if c \<noteq> 0 then c else 1)"
    by (auto simp: detect_pagination_def Let_def split: sum.splits if_splits)
  have "0 \<le> c" using c by (rule extract_current_page_nonneg)
  with cp have "1 \<le> current_page info" by auto
  with t show "1 \<le> total_pages info \<and> 1 \<le> current_page info" by simp
qed


lemma ex_page_pg0_detected:
  "detect_pagination ex_page_pg0
     = Inr \<lparr>total_pages = 1, current_page = 1, page_pattern = py ''pg={page}'',
            base_url = Some (py ''list.aspx?pg=0''), pagination_selector = None\<rparr>
   \<and> extract_current_page ex_page_pg0 = Inr 0"
  by (simp add: detect_pagination_def extract_total_pages_from_pagination_def
        extract_current_page_def ex_page_pg0_def page_defs dom_defs text_defs Let_def)

theorem detect_pagination_floor_witness:
  "detect_pagination ex_page_pg0
     = Inr \<lparr>total_pages = 1, current_page = 1, page_pattern = py ''pg={page}'',
            base_url = Some (py ''list.aspx?pg=0''), pagination_selector = None\<rparr>
   \<and> extract_current_page ex_page_pg0 = Inr 0
   \<and> (1::int) \<le> total_pages \<lparr>total_pages = 1, current_page = 1, page_pattern = py ''pg={page}'',
            base_url = Some (py ''list.aspx?pg=0''), pagination_selector = None\<rparr>
   \<and> (1::int) \<le> current_page \<lparr>total_pages = 1, current_page = 1, page_pattern = py ''pg={page}'',
            base_url = Some (py ''list.aspx?pg=0''), pagination_selector = None\<rparr>"
  using ex_page_pg0_detected
    detect_pagination_floor [of ex_page_pg0 "\<lparr>total_pages = 1, current_page = 1,
      page_pattern = py ''pg={page}'', base_url = Some (py ''list.aspx?pg=0''),
      pagination_selector = None\<rparr>"]
  by blast

lemma detect_pagination_can_raise:
  "detect_pagination ex_page_canonical = Inl TypeError"
  by (simp add: detect_pagination_def extract_total_pages_from_pagination_def
        extract_current_page_def ex_page_canonical_def page_defs dom_defs text_defs Let_def)

lemma ex_page_pg5_signals:
  "link_numbers ex_page_pg5 = [py ''5''] \<and> last_link_texts ex_page_pg5 = []
   \<and> links_with_string next_pattern ex_page_pg5 = []"
  by (simp add: ex_page_pg5_def page_defs dom_defs text_defs Let_def)

lemma ex_page_pg5_detected:
  "detect_pagination ex_page_pg5
     = Inr \<lparr>total_pages = 5, current_page = 1, page_pattern = py ''pg={page}'',
            base_url = Some (py ''list.aspx?pg=5''), pagination_selector = None\<rparr>"
  by (simp add: detect_pagination_def extract_total_pages_from_pagination_def
        extract_current_page_def ex_page_pg5_def page_defs dom_defs text_defs Let_def)

lemma ex_page_total3_detected:
  "detect_pagination ex_page_total3
     = Inr \<lparr>total_pages = 3, current_page = 1, page_pattern = py ''pg={page}'',
            base_url = None, pagination_selector = Some (Class (py ''pagination''))\<rparr>"
  by (simp add: detect_pagination_def extract_total_pages_from_pagination_def
        extract_current_page_def ex_page_total3_def page_defs dom_defs text_defs Let_def)

text \<open>
  The numbers are read in every script, a comment is the string of its link, and \<open>int\<close>
  raises on a digit that is no decimal digit: a container text with a full-width 5 gives
  the total 5; a link whose text is a superscript 4 and a 5 makes the function raise
  \<open>ValueError\<close>, as does every page with a numeral that \<open>int\<close> does not accept; a link
  that holds only the comment \<open>next\<close>, or only a script with that text, is a next-page
  link.
\<close>

lemma extract_total_pages_fullwidth:
  "container_numbers (Some (Elem (py ''div'') [] [Text [20849, 65301, 38913]])) = [[65301]]
   \<and> detect_pagination ex_page_fullwidth_total
       = Inr \<lparr>total_pages = 5, current_page = 1, page_pattern = py ''pg={page}'',
              base_url = None, pagination_selector = Some (Class (py ''pagination''))\<rparr>"
  by (simp add: detect_pagination_def extract_total_pages_from_pagination_def
        extract_current_page_def ex_page_fullwidth_total_def page_defs dom_defs text_defs Let_def)

lemma extract_total_pages_superscript:
  "last_link_texts ex_page_superscript = [[8308, 53]]
   \<and> extract_total_pages_from_pagination ex_page_superscript None = Inl ValueError
   \<and> detect_pagination ex_page_superscript = Inl ValueError"
  by (simp add: detect_pagination_def extract_total_pages_from_pagination_def
        extract_current_page_def ex_page_superscript_def page_defs dom_defs text_defs Let_def)

lemma extract_total_pages_raises:
  assumes "\<not> list_all int_accepts
             (link_numbers soup @ container_numbers pagination @ last_link_texts soup)"
  shows "extract_total_pages_from_pagination soup pagination = Inl ValueError"
proof (cases "list_all int_accepts (link_numbers soup)")
  case False
  then show ?thesis
    by (simp add: extract_total_pages_from_pagination_def max_pages_raises)
next
  case l: True
  show ?thesis
  proof (cases "list_all int_accepts (container_numbers pagination)")
    case False
    then show ?thesis
      by (simp add: extract_total_pages_from_pagination_def max_pages_accepts [OF l]
            max_pages_raises)
  next
    case c: True
    with l assms have "\<not> list_all int_accepts (last_link_texts soup)" by simp
    then show ?thesis
      by (simp add: extract_total_pages_from_pagination_def max_pages_accepts [OF l]
            max_pages_accepts [OF c] max_pages_raises)
  qed
qed

lemma extract_total_pages_comment_next:
  "links_with_string next_pattern ex_page_comment_next \<noteq> []
   \<and> get_text ex_page_comment_next = []
   \<and> extract_total_pages_from_pagination ex_page_comment_next None = Inr 2"
  by (simp add: extract_total_pages_from_pagination_def ex_page_comment_next_def
        page_defs dom_defs text_defs Let_def)

lemma extract_total_pages_script_next:
  "get_text ex_script = py ''next''
   \<and> get_text ex_page_script_next = []
   \<and> links_with_string next_pattern ex_page_script_next \<noteq> []
   \<and> extract_total_pages_from_pagination ex_page_script_next None = Inr 2"
  by (simp add: extract_total_pages_from_pagination_def ex_page_script_next_def ex_script_def
        page_defs dom_defs text_defs Let_def)

text \<open>
  C8, as stated, fails: on a page with a link to \<open>list.aspx?pg=1\<close> and a link with the
  text \<open>next\<close>, the only page number found is 1, and the total is 2.
\<close>

theorem extract_total_pages_counterexample:
  "link_numbers ex_page_pg1_next = [py ''1'']
   \<and> first_container common_selectors ex_page_pg1_next = None
   \<and> last_link_texts ex_page_pg1_next = []
   \<and> extract_total_pages_from_pagination ex_page_pg1_next None = Inr 2
   \<and> detect_pagination ex_page_pg1_next
       = Inr \<lparr>total_pages = 2, current_page = 1, page_pattern = py ''pg={page}'',
              base_url = Some (py ''list.aspx?pg=1''), pagination_selector = None\<rparr>"
  by (simp add: detect_pagination_def extract_total_pages_from_pagination_def
        extract_current_page_def ex_page_pg1_next_def page_defs dom_defs text_defs Let_def)

text \<open>
  C8 (amended): when \<open>int\<close> accepts every numeral found (each has at most 4300 digits,
  and every numeric text of a last-page link is made of decimal digits), the inferred
  total is the maximum \<open>m\<close> of 1 and all page numbers found (in the links, in the text of
  the pagination container, in the last-page links), except that it is 2 when \<open>m\<close> is 1
  and a next-page link exists; the total page count that pagination detection returns is
  this number for the first pagination container found; a page whose only link is
  \<open>list.aspx?pg=5\<close> yields 5, and a pagination container with the text "total 3 pages"
  of the specification yields 3.
\<close>

theorem extract_total_pages_spec:
  "(list_all int_accepts
      (link_numbers soup @ container_numbers pagination @ last_link_texts soup)
      \<longrightarrow> extract_total_pages_from_pagination soup pagination
            = Inr (if links_with_string next_pattern soup \<noteq> []
                      \<and> Max (insert 1 (set (map int_of_digits
                           (link_numbers soup @ container_numbers pagination
                              @ last_link_texts soup)))) = 1
                   then 2
                   else Max (insert 1 (set (map int_of_digits
                           (link_numbers soup @ container_numbers pagination
                              @ last_link_texts soup))))))
   \<and> (detect_pagination soup = Inr info
      \<longrightarrow> extract_total_pages_from_pagination soup
            (map_option snd (first_container common_selectors soup)) = Inr (total_pages info))
   \<and> (\<exists>info5. detect_pagination ex_page_pg5 = Inr info5 \<and> total_pages info5 = 5)
   \<and> (\<exists>info3. detect_pagination ex_page_total3 = Inr info3 \<and> total_pages info3 = 3)"
proof (intro conjI impI)
  assume d: "list_all int_accepts
               (link_numbers soup @ container_numbers pagination @ last_link_texts soup)"
  let ?nums = "map int_of_digits
                 (link_numbers soup @ container_numbers pagination @ last_link_texts soup)"
  let ?m = "Max (insert 1 (set ?nums))"
  from d have l: "list_all int_accepts (link_numbers soup)"
    and c: "list_all int_accepts (container_numbers pagination)"
    and t: "list_all int_accepts (last_link_texts soup)" by simp_all
  have m: "foldl max 1 ?nums = ?m" by (rule foldl_max_Max)
  have "1 \<le> ?m" by (intro Max_ge) simp_all
  then have "max 1 (if links_with_string next_pattern soup \<noteq> [] \<and> ?m = 1 then 2 else ?m)
             = (if links_with_string next_pattern soup \<noteq> [] \<and> ?m = 1 then 2 else ?m)"
    by simp
  moreover have "extract_total_pages_from_pagination soup pagination
      = Inr (max 1 (if links_with_string next_pattern soup \<noteq> [] \<and> foldl max 1 ?nums = 1
                    then 2 else foldl max 1 ?nums))"
    unfolding extract_total_pages_from_pagination_def
    by (simp add: max_pages_accepts [OF l] max_pages_accepts [OF c] max_pages_accepts [OF t]
          Let_def)
  ultimately show "extract_total_pages_from_pagination soup pagination
            = Inr (if links_with_string next_pattern soup \<noteq> [] \<and> ?m = 1 then 2 else ?m)"
    unfolding m by simp
next
  assume "detect_pagination soup = Inr info"
  then show "extract_total_pages_from_pagination soup
            (map_option snd (first_container common_selectors soup)) = Inr (total_pages info)"
    by (rule detect_pagination_total)
next
  show "\<exists>info5. detect_pagination ex_page_pg5 = Inr info5 \<and> total_pages info5 = 5"
    using ex_page_pg5_detected by simp
next
  show "\<exists>info3. detect_pagination ex_page_total3 = Inr info3 \<and> total_pages info3 = 3"
    using ex_page_total3_detected by simp
qed

theorem extract_total_pages_spec_witness:
  "list_all int_accepts
     (link_numbers ex_page_pg5 @ container_numbers None @ last_link_texts ex_page_pg5)
   \<and> extract_total_pages_from_pagination ex_page_pg5 None = Inr 5"
proof -
  have s: "link_numbers ex_page_pg5 @ container_numbers None @ last_link_texts ex_page_pg5
           = [py ''5'']"
    using ex_page_pg5_signals by (simp add: container_numbers_def)
  have h: "list_all int_accepts
             (link_numbers ex_page_pg5 @ container_numbers None @ last_link_texts ex_page_pg5)"
    unfolding s by (simp add: int_accepts_def int_max_str_digits_def text_defs)
  have "extract_total_pages_from_pagination ex_page_pg5 None
            = Inr (if links_with_string next_pattern ex_page_pg5 \<noteq> []
                      \<and> Max (insert 1 (set (map int_of_digits
                           (link_numbers ex_page_pg5 @ container_numbers None
                              @ last_link_texts ex_page_pg5)))) = 1
                   then 2
                   else Max (insert 1 (set (map int_of_digits
                           (link_numbers ex_page_pg5 @ container_numbers None
                              @ last_link_texts ex_page_pg5)))))"
    using h extract_total_pages_spec [of ex_page_pg5 None] by blast
  then have "extract_total_pages_from_pagination ex_page_pg5 None = Inr 5"
    unfolding s using ex_page_pg5_signals by (simp add: int_of_digits_def text_defs)
  with h show ?thesis by simp
qed
section \<open>Two runs of a site\<close>

lemmas run_defs = monitor_site_def fetch_detail_page_def filter_data_by_organizer_def
  save_data_def normalise_start_def sort_rows_def reload_row_def reload_cell_def na_values_def
  start_before_def detect_new_data_def existing_keys_def List.map_filter_def

lemma undated_always_new:
  assumes "\<not> truthy (date item)" "item \<in> set new_data"
  shows "item \<in> set (detect_new_data new_data existing_data)"
proof -
  have "get_str (date item) = []" using assms(1) by (cases "date item") auto
  then have "(CStr (get_str (title item)), CStr (get_str (date item)))
               \<notin> set (existing_keys existing_data)"
    by (auto simp: in_existing_keys)
  with assms(2) show ?thesis by (auto simp: detect_new_data_def)
qed

lemma reload_cell_examples:
  "reload_cell (CStr []) = CNaN \<and> reload_cell (CStr (py ''NA'')) = CNaN
   \<and> reload_cell CNone = CNaN
   \<and> reload_cell (CStr (py ''Event X'')) = CStr (py ''Event X'')"
  by (simp add: reload_cell_def na_values_def py_def)

lemma ex_first_run:
  "monitor_site ex_fetch (py ''2024-05-10 08:00:00'') ex_to_datetime False [] [ex_listed]
     = \<lparr>new_items = [ex_listed],
        saved = [\<lparr>event_name = CStr (py ''Event X''),
                  fetched_at = CStr (py ''2024-05-10 08:00:00''),
                  organizer = CNone, location = CNone, start_date = CStr (py ''2024-06-01''),
                  end_date = CStr (py ''2024-06-03'')\<rparr>],
        store_after = [ex_stored_row]\<rparr>"
  by (simp add: run_defs ex_fetch_def ex_to_datetime_def ex_listed_def ex_stored_row_def
        text_defs Let_def)

text \<open>
  C2: the code at the failing input. The listing of the site has one record, dated
  2024-05-01 on the listing page; its detail page gives the days 2024-06-01 to
  2024-06-03. The first run, on an empty store, stores the event with the start date of
  the detail page; the second run, on that store and the same listing, classifies the
  record as new again, because it compares the date of the listing page with the stored
  start date. And a record that has no date on the listing page is classified as new
  whatever the store holds.
\<close>

theorem second_run_finds_new_records:
  "store_after (monitor_site ex_fetch (py ''2024-05-10 08:00:00'') ex_to_datetime False []
       [ex_listed]) = [ex_stored_row]
   \<and> new_items (monitor_site ex_fetch (py ''2024-05-11 08:00:00'') ex_to_datetime False
       [ex_stored_row] [ex_listed]) = [ex_listed]
   \<and> detect_new_data [ex_fresh_undated] existing_data = [ex_fresh_undated]"
proof -
  have a: "store_after (monitor_site ex_fetch (py ''2024-05-10 08:00:00'') ex_to_datetime
             False [] [ex_listed]) = [ex_stored_row]"
    using ex_first_run by simp
  have b: "new_items (monitor_site ex_fetch (py ''2024-05-11 08:00:00'') ex_to_datetime False
       [ex_stored_row] [ex_listed]) = [ex_listed]"
    by (simp add: run_defs ex_fetch_def ex_to_datetime_def ex_listed_def ex_stored_row_def
          text_defs Let_def)
  have "ex_fresh_undated \<in> set (detect_new_data [ex_fresh_undated] existing_data)"
    by (rule undated_always_new) (simp_all add: ex_fresh_undated_def)
  then have c: "detect_new_data [ex_fresh_undated] existing_data = [ex_fresh_undated]"
    by (auto simp: detect_new_data_def split: if_splits)
  from a b c show ?thesis by simp
qed

end
